theory Spec2Isabelle
  imports Complex_Main "HOL-Library.Log_Nat"
begin

section \<open>Python exceptions and results\<close>

text \<open>
  The scripts raise and catch Python exceptions. An exception is modelled by its class
  and the text that \<^verbatim>\<open>str(e)\<close> gives. \<open>KeyboardInterrupt\<close>, \<open>SystemExit\<close> and
  \<open>GeneratorExit\<close> derive from \<open>BaseException\<close> only; every other class used here derives
  from \<open>Exception\<close>, and \<open>UnicodeEncodeError\<close> derives from \<open>ValueError\<close>.
\<close>

datatype exc_class =
    ValueError | TypeError | IndexError | KeyError | OSError | RuntimeError | OverflowError
  | UnicodeEncodeError
  | KeyboardInterrupt | SystemExit | GeneratorExit

datatype py_exception = Exc exc_class string

fun exc_class_of :: "py_exception \<Rightarrow> exc_class" where
  "exc_class_of (Exc k m) = k"

fun str_exc :: "py_exception \<Rightarrow> string" where
  "str_exc (Exc k m) = m"

fun isinstance_Exception :: "py_exception \<Rightarrow> bool" where
  "isinstance_Exception (Exc KeyboardInterrupt m) = False"
| "isinstance_Exception (Exc SystemExit m) = False"
| "isinstance_Exception (Exc GeneratorExit m) = False"
| "isinstance_Exception (Exc k m) = True"

text \<open>
  A call either raises or returns: \<open>Inl e\<close> is the exception that propagates to the
  caller, \<open>Inr v\<close> the value returned.
\<close>

type_synonym 'a result = "py_exception + 'a"

definition raises :: "'a result \<Rightarrow> bool" where
  "raises r = isl r"

text \<open>
  Code outside the scripts (a renderer, the terminal) is a parameter of the model: a
  function that gives, for what it is handed, the exception it raises or \<open>()\<close> when it
  returns.
\<close>

type_synonym 'a effect = "'a \<Rightarrow> unit result"

section \<open>The NumPy operations the scripts call\<close>

text \<open>
  A finite float64 value is the real number it denotes; the two zeros are not told
  apart. The coordinates of a point cloud are such values, and the only operations on
  them here are comparisons, which are exact. A one-dimensional array is a list, the
  \<open>n \<times> 3\<close> point array a list of triples, and a two-dimensional grid a list of rows.
\<close>

type_synonym point = "real \<times> real \<times> real"

text \<open>\<^verbatim>\<open>np.min\<close> and \<open>np.max\<close> raise \<open>ValueError\<close> on an empty array.\<close>

definition np_min :: "real list \<Rightarrow> real result" where
  "np_min xs = (case xs of
      [] \<Rightarrow> Inl (Exc ValueError ''zero-size array to reduction operation minimum which has no identity'')
    | x # rest \<Rightarrow> Inr (fold min rest x))"

definition np_max :: "real list \<Rightarrow> real result" where
  "np_max xs = (case xs of
      [] \<Rightarrow> Inl (Exc ValueError ''zero-size array to reduction operation maximum which has no identity'')
    | x # rest \<Rightarrow> Inr (fold max rest x))"

text \<open>
  \<^verbatim>\<open>np.vstack((x, y, z))\<close> stacks three one-dimensional arrays as the rows of a
  \<open>3 \<times> n\<close> array and raises \<open>ValueError\<close> when their lengths differ;
  \<^verbatim>\<open>.transpose()\<close> turns it into the \<open>n \<times> 3\<close> array whose \<open>i\<close>-th row holds the
  \<open>i\<close>-th entries of the three rows.
\<close>

definition np_vstack3 :: "real list \<Rightarrow> real list \<Rightarrow> real list \<Rightarrow> (real list \<times> real list \<times> real list) result" where
  "np_vstack3 x y z =
     (if length x = length y \<and> length y = length z then Inr (x, y, z)
      else Inl (Exc ValueError ''all the input array dimensions except for the concatenation axis must match exactly''))"

fun np_transpose3 :: "real list \<times> real list \<times> real list \<Rightarrow> point list" where
  "np_transpose3 (x, y, z) = map (\<lambda>i. (x ! i, y ! i, z ! i)) [0..<length x]"

text \<open>Column slices \<^verbatim>\<open>arr[:, 0]\<close>, \<^verbatim>\<open>arr[:, 1]\<close>, \<^verbatim>\<open>arr[:, 2]\<close> of an \<open>n \<times> 3\<close> array.\<close>

definition col0 :: "point list \<Rightarrow> real list" where
  "col0 ps = map (\<lambda>(x, y, z). x) ps"

definition col1 :: "point list \<Rightarrow> real list" where
  "col1 ps = map (\<lambda>(x, y, z). y) ps"

definition col2 :: "point list \<Rightarrow> real list" where
  "col2 ps = map (\<lambda>(x, y, z). z) ps"

section \<open>The .las file as laspy presents it\<close>

text \<open>
  A .las file is a sequence of point records; \<^verbatim>\<open>laspy.read\<close> returns an object whose
  attributes \<open>x\<close>, \<open>y\<close>, \<open>z\<close> and \<open>classification\<close> are the columns of that one sequence,
  in file order. Reading is an effect of the file system: \<open>read\<close> is a parameter that
  gives, for a path, the exception \<^verbatim>\<open>laspy.read\<close> raises or the data it returns.
  Classification labels are small unsigned integers; no arithmetic is done on them, so
  they are modelled as \<open>int\<close>.
\<close>

record las_point =
  X :: real
  Y :: real
  Z :: real
  classification :: int

type_synonym las_data = "las_point list"

definition las_x :: "las_data \<Rightarrow> real list" where
  "las_x las = map X las"

definition las_y :: "las_data \<Rightarrow> real list" where
  "las_y las = map Y las"

definition las_z :: "las_data \<Rightarrow> real list" where
  "las_z las = map Z las"

definition las_classification :: "las_data \<Rightarrow> int list" where
  "las_classification las = map classification las"

type_synonym las_reader = "string \<Rightarrow> las_data result"

section \<open>utils/read\_npy\_file.py\<close>

text \<open>
  \<^verbatim>\<open>np.load\<close> is a parameter: for a path it gives the exception raised or the array
  loaded. \<^verbatim>\<open>print\<close> is a parameter as well: writing to the standard output can fail
  (a closed pipe, a terminal encoding that cannot encode the message), and an exception
  raised inside the handler propagates. The function returns its value (\<open>None\<close> is
  Python's \<open>None\<close>). The handler is \<^verbatim>\<open>except Exception\<close>: an exception that is not an
  instance of \<open>Exception\<close> is not caught and propagates.
\<close>

definition read_npy_file :: "(string \<Rightarrow> 'arr result) \<Rightarrow> string effect \<Rightarrow> string \<Rightarrow> ('arr option) result" where
  "read_npy_file np_load py_print file_path =
     (case np_load file_path of
        Inr data \<Rightarrow> Inr (Some data)
      | Inl e \<Rightarrow>
          if isinstance_Exception e
          then (case py_print (''An error occurred: '' @ str_exc e) of
                  Inl e' \<Rightarrow> Inl e'
                | Inr u \<Rightarrow> Inr None)
          else Inl e)"

section \<open>utils/utils\_range.py\<close>

text \<open>The returned dictionary is a map from its string keys to the pairs.\<close>

definition get_xyz_ranges :: "las_reader \<Rightarrow> string \<Rightarrow> (string \<rightharpoonup> real \<times> real) result" where
  "get_xyz_ranges read file_path =
     (case read file_path of Inl e \<Rightarrow> Inl e | Inr las \<Rightarrow>
      let x = las_x las; y = las_y las; z = las_z las in
      case np_min x of Inl e \<Rightarrow> Inl e | Inr x_min \<Rightarrow>
      case np_max x of Inl e \<Rightarrow> Inl e | Inr x_max \<Rightarrow>
      case np_min y of Inl e \<Rightarrow> Inl e | Inr y_min \<Rightarrow>
      case np_max y of Inl e \<Rightarrow> Inl e | Inr y_max \<Rightarrow>
      case np_min z of Inl e \<Rightarrow> Inl e | Inr z_min \<Rightarrow>
      case np_max z of Inl e \<Rightarrow> Inl e | Inr z_max \<Rightarrow>
      Inr [''x_range'' \<mapsto> (x_min, x_max),
           ''y_range'' \<mapsto> (y_min, y_max),
           ''z_range'' \<mapsto> (z_min, z_max)])"

section \<open>More NumPy and Python operations\<close>

text \<open>
  \<^verbatim>\<open>np.unique\<close> gives the sorted distinct values of an array. Called on \<open>None\<close> it
  gives the one-element object array holding \<open>None\<close>, so the values of the general form
  are optional labels.
\<close>

definition np_unique :: "int list \<Rightarrow> int list" where
  "np_unique xs = sort (remdups xs)"

definition np_unique_obj :: "int list option \<Rightarrow> int option list" where
  "np_unique_obj a = (case a of None \<Rightarrow> [None] | Some xs \<Rightarrow> map Some (np_unique xs))"

text \<open>
  \<^verbatim>\<open>np.where(arr == v)\<close> gives the indices at which the array holds \<open>v\<close>, in
  increasing order; indexing an array with an index array gives the rows at those
  indices and raises \<open>IndexError\<close> when one of them is out of bounds.
\<close>

definition np_where_eq :: "int list \<Rightarrow> int \<Rightarrow> nat list" where
  "np_where_eq arr v = filter (\<lambda>i. arr ! i = v) [0..<length arr]"

definition take_rows :: "'a list \<Rightarrow> nat list \<Rightarrow> 'a list result" where
  "take_rows arr idx =
     (if list_all (\<lambda>i. i < length arr) idx then Inr (map (\<lambda>i. arr ! i) idx)
      else Inl (Exc IndexError ''index is out of bounds for axis 0''))"

text \<open>
  \<^verbatim>\<open>np.isin(arr, values)\<close> gives the boolean mask of membership; indexing an array
  with a boolean mask keeps the rows where the mask is true and raises \<open>IndexError\<close>
  when the mask's length is not the array's; \<^verbatim>\<open>np.where(cond, 0, 1)\<close> maps true to
  0 and false to 1.
\<close>

definition np_isin :: "int list \<Rightarrow> int list \<Rightarrow> bool list" where
  "np_isin arr vals = map (\<lambda>c. c \<in> set vals) arr"

definition mask_rows :: "'a list \<Rightarrow> bool list \<Rightarrow> 'a list result" where
  "mask_rows arr msk =
     (if length msk = length arr then Inr (map fst (filter snd (zip arr msk)))
      else Inl (Exc IndexError ''boolean index did not match indexed array along axis 0''))"

definition np_where_01 :: "bool list \<Rightarrow> int list" where
  "np_where_01 cond = map (\<lambda>t. if t then 0 else 1) cond"

text \<open>Decimal text of an integer, as \<^verbatim>\<open>str\<close> and \<^verbatim>\<open>format\<close> give it.\<close>

fun str_nat :: "nat \<Rightarrow> string" where
  "str_nat n =
     (if n < 10 then [''0123456789'' ! n]
      else str_nat (n div 10) @ [''0123456789'' ! (n mod 10)])"

declare str_nat.simps [simp del]

definition str_int :: "int \<Rightarrow> string" where
  "str_int i = (if i < 0 then CHR ''-'' # str_nat (nat (- i)) else str_nat (nat i))"

section \<open>float64 arithmetic\<close>

text \<open>
  The result of an arithmetic operation on float64 values is the exact result rounded
  to the nearest float64, ties to the value with an even significand; a result beyond
  the largest float64 is infinite. \<open>floor_log2 x\<close> is the exponent of the power of two at
  or below a positive \<open>x\<close>; the floats near \<open>x\<close> are the multiples of
  \<open>2 powi ulp_exponent x\<close>, 53 bits of significand for a normal \<open>x\<close> and multiples of
  \<open>2 powi - 1074\<close> for a subnormal one. \<open>NonFinite\<close> stands for \<open>inf\<close>, \<open>-inf\<close> and \<open>nan\<close>:
  the operations used here give one of them whenever an operand is one of them (the
  divisors are finite), so the three need not be told apart.
\<close>

datatype np_float = Finite real | NonFinite

definition floor_log2 :: "real \<Rightarrow> int" where
  "floor_log2 x = (if 1 \<le> x then bitlen \<lfloor>x\<rfloor> - 1 else - bitlen (\<lceil>1 / x\<rceil> - 1))"

definition round_half_even :: "real \<Rightarrow> int" where
  "round_half_even q =
     (let f = \<lfloor>q\<rfloor>; r = q - of_int f
      in if r < 1 / 2 then f else if 1 / 2 < r then f + 1 else if even f then f else f + 1)"

definition ulp_exponent :: "real \<Rightarrow> int" where
  "ulp_exponent x = max (floor_log2 \<bar>x\<bar> - 52) (- 1074)"

definition nearest_float :: "real \<Rightarrow> real" where
  "nearest_float x =
     (if x = 0 then 0
      else of_int (round_half_even (x / 2 powi ulp_exponent x)) * 2 powi ulp_exponent x)"

definition round64 :: "real \<Rightarrow> np_float" where
  "round64 x = (let y = nearest_float x in if 2 ^ 1024 \<le> \<bar>y\<bar> then NonFinite else Finite y)"

text \<open>
  The element-wise operations of NumPy on float64. Dividing by zero gives \<open>inf\<close>, \<open>-inf\<close>
  or \<open>nan\<close> with a warning and does not raise. The divisor of \<open>np_divide\<close> is finite in
  every use.
\<close>

definition np_add :: "np_float \<Rightarrow> np_float \<Rightarrow> np_float" where
  "np_add u v = (case (u, v) of (Finite x, Finite y) \<Rightarrow> round64 (x + y) | _ \<Rightarrow> NonFinite)"

definition np_subtract :: "np_float \<Rightarrow> np_float \<Rightarrow> np_float" where
  "np_subtract u v = (case (u, v) of (Finite x, Finite y) \<Rightarrow> round64 (x - y) | _ \<Rightarrow> NonFinite)"

definition np_multiply :: "np_float \<Rightarrow> np_float \<Rightarrow> np_float" where
  "np_multiply u v = (case (u, v) of (Finite x, Finite y) \<Rightarrow> round64 (x * y) | _ \<Rightarrow> NonFinite)"

definition np_divide :: "np_float \<Rightarrow> real \<Rightarrow> np_float" where
  "np_divide u c =
     (case u of
        Finite x \<Rightarrow> if c = 0 then NonFinite else round64 (x / c)
      | NonFinite \<Rightarrow> NonFinite)"

text \<open>
  \<^verbatim>\<open>int(x)\<close> on a finite float truncates towards zero and raises \<open>OverflowError\<close> on an
  infinite one (the non-finite values it is applied to here are overflowed products).
\<close>

definition py_int :: "real \<Rightarrow> int" where
  "py_int x = (if 0 \<le> x then \<lfloor>x\<rfloor> else \<lceil>x\<rceil>)"

definition int_of_float :: "np_float \<Rightarrow> int result" where
  "int_of_float v =
     (case v of
        Finite x \<Rightarrow> Inr (py_int x)
      | NonFinite \<Rightarrow> Inl (Exc OverflowError ''cannot convert float infinity to integer''))"

text \<open>
  \<^verbatim>\<open>np.linspace(start, stop, num)\<close> with the default \<open>endpoint=True\<close>, as NumPy computes
  it: the step is \<open>(stop - start) / (num - 1)\<close>, sample \<open>i\<close> is \<open>i * step + start\<close> (or
  \<open>(i / (num - 1)) * (stop - start) + start\<close> when the step has underflowed to zero), each
  operation rounded, and the last sample is set to \<open>stop\<close>. \<^verbatim>\<open>np.meshgrid(xs, ys)\<close> with
  the default \<open>indexing='xy'\<close>: two grids of \<open>length ys\<close> rows and \<open>length xs\<close> columns, the
  first repeating \<open>xs\<close> in every row, the second holding \<open>ys ! i\<close> throughout row \<open>i\<close>.
\<close>

definition np_linspace :: "real \<Rightarrow> real \<Rightarrow> nat \<Rightarrow> np_float list" where
  "np_linspace start stop num =
     (let dv = num - 1;
          delta = np_subtract (Finite stop) (Finite start);
          y = map (\<lambda>i. Finite (real i)) [0..<num];
          y1 = (if 0 < dv
                then (let step = np_divide delta (real dv)
                      in if step = Finite 0
                         then map (\<lambda>v. np_multiply (np_divide v (real dv)) delta) y
                         else map (\<lambda>v. np_multiply v step) y)
                else map (\<lambda>v. np_multiply v delta) y);
          y2 = map (\<lambda>v. np_add v (Finite start)) y1
      in if 1 < num then y2[num - 1 := Finite stop] else y2)"

definition np_meshgrid :: "'a list \<Rightarrow> 'a list \<Rightarrow> 'a list list \<times> 'a list list" where
  "np_meshgrid xs ys = (replicate (length ys) xs, map (\<lambda>y. replicate (length xs) y) ys)"

section \<open>External libraries taken as parameters\<close>

text \<open>
  \<^verbatim>\<open>plt.get_cmap('tab20', n)\<close> is a parameter: for \<open>n\<close> it gives the colormap, which
  at an index gives an RGBA tuple of floats between 0 and 1 (Matplotlib accepts no other
  colour). \<^verbatim>\<open>SVC(kernel='linear').fit\<close> is a parameter: for the training points and
  labels it gives the exception raised or the fitted model, of which the scripts read
  \<open>coef_\<close> and \<open>intercept_\<close>.
\<close>

typedef unit_float = "{x :: real. 0 \<le> x \<and> x \<le> 1}"
  morphisms unit_value Unit_float
  by (rule exI [of _ 0]) simp

type_synonym rgb = "unit_float \<times> unit_float \<times> unit_float"

type_synonym colormap = "nat \<Rightarrow> nat \<Rightarrow> unit_float \<times> unit_float \<times> unit_float \<times> unit_float"

fun first3 :: "unit_float \<times> unit_float \<times> unit_float \<times> unit_float \<Rightarrow> rgb" where
  "first3 (r, g, b, a) = (r, g, b)"

record svc_model =
  coef :: "real list list"
  intercept :: "real list"

type_synonym svc_fit = "point list \<Rightarrow> int list \<Rightarrow> svc_model result"

section \<open>What the renderers are handed\<close>

text \<open>
  \<open>visualize\<close> returns \<open>None\<close>; what it does is hand a scene to a renderer. The
  renderers (Open3D, PyVista, Plotly) are parameters: for the scene they are handed they
  give the exception raised or \<open>()\<close>. The Open3D calls (\<^verbatim>\<open>Vector3dVector\<close>,
  \<^verbatim>\<open>draw_geometries\<close>) are one such function of the list of clouds drawn, the PyVista
  calls (\<^verbatim>\<open>PolyData\<close>, \<^verbatim>\<open>add_points\<close>, \<^verbatim>\<open>show\<close>) one of the points and the
  settings. The calls whose arguments are constants of the script
  (\<^verbatim>\<open>go.Figure()\<close>, \<^verbatim>\<open>update_layout\<close>) are taken to return. A renderer is
  handed the array itself and is taken not to write to it.
\<close>

datatype o3d_scene = Draw_geometries "point list list"

record pv_scene =
  pv_points :: "point list"
  pv_color :: string
  pv_point_size :: nat
  pv_render_points_as_spheres :: bool
  pv_background :: string

datatype trace =
    Scatter3d "real list" "real list" "real list" string nat string real string
  | Surface "np_float list list" "np_float list list" "np_float list list" real string bool string

text \<open>
  \<open>Scatter3d x y z mode size color opacity name\<close> and
  \<open>Surface x y z opacity colorscale showscale name\<close>, with the arguments of the calls.
\<close>

record layout =
  xaxis_title :: string
  yaxis_title :: string
  zaxis_title :: string
  margin :: "nat \<times> nat \<times> nat \<times> nat"
  showlegend :: bool

record figure =
  traces :: "trace list"
  fig_layout :: "layout option"

text \<open>
  Plotly: \<open>go_trace\<close> is the construction of a trace from its arguments
  (\<^verbatim>\<open>go.Scatter3d(...)\<close>, \<^verbatim>\<open>go.Surface(...)\<close>) and its addition to the figure, which
  Plotly refuses by raising when it does not accept an argument; \<open>pio_show\<close> is
  \<^verbatim>\<open>pio.show(fig)\<close>.
\<close>

record plotly =
  go_trace :: "trace effect"
  pio_show :: "figure effect"

definition go_Figure :: figure where
  "go_Figure = \<lparr>traces = [], fig_layout = None\<rparr>"

definition add_trace :: "figure \<Rightarrow> trace \<Rightarrow> figure" where
  "add_trace fig t = fig\<lparr>traces := traces fig @ [t]\<rparr>"

definition update_layout :: "figure \<Rightarrow> figure" where
  "update_layout fig =
     fig\<lparr>fig_layout := Some \<lparr>xaxis_title = ''X'', yaxis_title = ''Y'', zaxis_title = ''Z'',
                              margin = (0, 0, 0, 0), showlegend = True\<rparr>\<rparr>"

section \<open>The visualizer classes\<close>

text \<open>
  A method takes the object and returns what it raises or returns together with the
  object as the call leaves it.
\<close>

record visualizer =
  file_path :: string
  point_cloud :: "point list option"

record visualizer_labeled = visualizer +
  point_classes :: "int list option"

definition not_loaded :: py_exception where
  "not_loaded = Exc ValueError ''No point cloud loaded. Please run `load_las_file()` first.''"

subsection \<open>PointCloudVisualizer.py and PointCloudVisualizer\_laspy.py\<close>

definition init :: "string \<Rightarrow> visualizer" where
  "init fp = \<lparr>file_path = fp, point_cloud = None\<rparr>"

text \<open>The two files have the same \<open>load_las_file\<close>.\<close>

definition load_las_file :: "las_reader \<Rightarrow> visualizer \<Rightarrow> unit result \<times> visualizer" where
  "load_las_file read s =
     (case read (file_path s) of Inl e \<Rightarrow> (Inl e, s) | Inr las \<Rightarrow>
      (case np_vstack3 (las_x las) (las_y las) (las_z las) of Inl e \<Rightarrow> (Inl e, s) | Inr stacked \<Rightarrow>
       (let points = np_transpose3 stacked
        in (Inr (), s\<lparr>point_cloud := Some points\<rparr>))))"

definition visualize_o3d :: "o3d_scene effect \<Rightarrow> visualizer \<Rightarrow> unit result \<times> visualizer" where
  "visualize_o3d draw s =
     (case point_cloud s of
        None \<Rightarrow> (Inl not_loaded, s)
      | Some pc \<Rightarrow> (draw (Draw_geometries [pc]), s))"

definition visualize_pv :: "pv_scene effect \<Rightarrow> visualizer \<Rightarrow> unit result \<times> visualizer" where
  "visualize_pv render s =
     (case point_cloud s of
        None \<Rightarrow> (Inl not_loaded, s)
      | Some pc \<Rightarrow>
          (render \<lparr>pv_points = pc, pv_color = ''white'', pv_point_size = 2,
                   pv_render_points_as_spheres = True, pv_background = ''black''\<rparr>, s))"

subsection \<open>PointCloudVisualizer\_go\_label.py and more\_vis/two\_svm\_plane.py\<close>

definition init_labeled :: "string \<Rightarrow> visualizer_labeled" where
  "init_labeled fp = \<lparr>file_path = fp, point_cloud = None, point_classes = None\<rparr>"

text \<open>The two files have the same \<open>load_las_file\<close> and the same \<open>get_color_map\<close>.\<close>

definition load_las_file_labeled :: "las_reader \<Rightarrow> visualizer_labeled \<Rightarrow> unit result \<times> visualizer_labeled" where
  "load_las_file_labeled read s =
     (case read (file_path s) of Inl e \<Rightarrow> (Inl e, s) | Inr las \<Rightarrow>
      (case np_vstack3 (las_x las) (las_y las) (las_z las) of Inl e \<Rightarrow> (Inl e, s) | Inr stacked \<Rightarrow>
       (let points = np_transpose3 stacked;
            classes = las_classification las
        in (Inr (), s\<lparr>point_cloud := Some points, point_classes := Some classes\<rparr>))))"

text \<open>
  The dictionary comprehension stores the pairs in order, a later pair replacing an
  earlier one with the same key.
\<close>

definition dict_of :: "('k \<times> 'v) list \<Rightarrow> ('k \<rightharpoonup> 'v)" where
  "dict_of kvs = fold (\<lambda>(k, v) m. m(k \<mapsto> v)) kvs Map.empty"

definition get_color_map :: "colormap \<Rightarrow> visualizer_labeled \<Rightarrow> (int option \<rightharpoonup> rgb) result \<times> visualizer_labeled" where
  "get_color_map get_cmap s =
     (let unique_classes = np_unique_obj (point_classes s);
          cmap = get_cmap (length unique_classes);
          class_color_map = dict_of (map (\<lambda>(i, cls). (cls, first3 (cmap i))) (enumerate 0 unique_classes))
      in (Inr class_color_map, s))"

text \<open>
  The colour string: each component is multiplied by 255 in float64 and truncated by
  \<^verbatim>\<open>int\<close>, from left to right.
\<close>

definition color_hex_of :: "rgb \<Rightarrow> string result" where
  "color_hex_of color_rgb =
     (case color_rgb of (r, g, b) \<Rightarrow>
        (case int_of_float (np_multiply (Finite (unit_value r)) (Finite 255)) of
           Inl e \<Rightarrow> Inl e
         | Inr ri \<Rightarrow>
        (case int_of_float (np_multiply (Finite (unit_value g)) (Finite 255)) of
           Inl e \<Rightarrow> Inl e
         | Inr gi \<Rightarrow>
        (case int_of_float (np_multiply (Finite (unit_value b)) (Finite 255)) of
           Inl e \<Rightarrow> Inl e
         | Inr bi \<Rightarrow>
             Inr (''rgb('' @ str_int ri @ '','' @ str_int gi @ '','' @ str_int bi @ '')'')))))"

text \<open>
  The loop over the unique classes, which both labeled files have: it adds one
  \<open>Scatter3d\<close> trace per class and stops at the first exception.
\<close>

fun class_traces :: "plotly \<Rightarrow> (int option \<rightharpoonup> rgb) \<Rightarrow> point list \<Rightarrow> int list \<Rightarrow> int list \<Rightarrow> figure \<Rightarrow> figure result" where
  "class_traces lib class_color_map pc classes [] fig = Inr fig"
| "class_traces lib class_color_map pc classes (cls # rest) fig =
     (let indices = np_where_eq classes cls in
      case take_rows pc indices of Inl e \<Rightarrow> Inl e | Inr points_class \<Rightarrow>
      (case class_color_map (Some cls) of
         None \<Rightarrow> Inl (Exc KeyError (str_int cls))
       | Some color_rgb \<Rightarrow>
           (case color_hex_of color_rgb of
              Inl e \<Rightarrow> Inl e
            | Inr color_hex \<Rightarrow>
                (let t = Scatter3d (col0 points_class) (col1 points_class) (col2 points_class)
                           ''markers'' 2 color_hex (8 / 10) (''Class '' @ str_int cls)
                 in case go_trace lib t of
                      Inl e \<Rightarrow> Inl e
                    | Inr u \<Rightarrow> class_traces lib class_color_map pc classes rest (add_trace fig t)))))"

definition visualize_go_label :: "plotly \<Rightarrow> colormap \<Rightarrow> visualizer_labeled \<Rightarrow> unit result \<times> visualizer_labeled" where
  "visualize_go_label lib get_cmap s =
     (case (point_cloud s, point_classes s) of
        (None, _) \<Rightarrow> (Inl not_loaded, s)
      | (Some pc, None) \<Rightarrow> (Inl not_loaded, s)
      | (Some pc, Some classes) \<Rightarrow>
          (case get_color_map get_cmap s of
             (Inl e, s1) \<Rightarrow> (Inl e, s1)
           | (Inr class_color_map, s1) \<Rightarrow>
               (let fig = go_Figure;
                    unique_classes = np_unique classes
                in case class_traces lib class_color_map pc classes unique_classes fig of
                     Inl e \<Rightarrow> (Inl e, s1)
                   | Inr fig1 \<Rightarrow> (pio_show lib (update_layout fig1), s1))))"

subsection \<open>more\_vis/two\_svm\_plane.py\<close>

text \<open>
  Subscripting \<open>None\<close> raises \<open>TypeError\<close>: \<open>train_svm\<close> on an object whose point
  cloud or labels are still \<open>None\<close> raises it at the first or the second indexing.
\<close>

definition not_subscriptable :: py_exception where
  "not_subscriptable = Exc TypeError ''NoneType object is not subscriptable''"

definition train_svm :: "svc_fit \<Rightarrow> visualizer_labeled \<Rightarrow> int \<Rightarrow> int \<Rightarrow> (real \<times> real \<times> real \<times> real) result \<times> visualizer_labeled" where
  "train_svm fit s class_a class_b =
     (case point_cloud s of None \<Rightarrow> (Inl not_subscriptable, s) | Some pc \<Rightarrow>
      (case point_classes s of None \<Rightarrow> (Inl not_subscriptable, s) | Some classes \<Rightarrow>
       (let msk = np_isin classes [class_a, class_b] in
        case mask_rows pc msk of Inl e \<Rightarrow> (Inl e, s) | Inr points_filtered \<Rightarrow>
        (case mask_rows classes msk of Inl e \<Rightarrow> (Inl e, s) | Inr classes_filtered \<Rightarrow>
         (let labels = np_where_01 (map (\<lambda>c. c = class_a) classes_filtered) in
          case fit points_filtered labels of Inl e \<Rightarrow> (Inl e, s) | Inr svm \<Rightarrow>
          (case coef svm of
             [] \<Rightarrow> (Inl (Exc IndexError ''index 0 is out of bounds for axis 0 with size 0''), s)
           | w # _ \<Rightarrow>
             (case w of
                [a, b, c] \<Rightarrow>
                  (case intercept svm of
                     [] \<Rightarrow> (Inl (Exc IndexError ''index 0 is out of bounds for axis 0 with size 0''), s)
                   | d # _ \<Rightarrow> (Inr (a, b, c, d), s))
              | _ \<Rightarrow> (Inl (Exc ValueError ''wrong number of values to unpack (expected 3)''), s))))))))"

type_synonym plane_grid = "np_float list list \<times> np_float list list \<times> np_float list list"

definition plot_plane :: "visualizer_labeled \<Rightarrow> real \<Rightarrow> real \<Rightarrow> real \<Rightarrow> real \<Rightarrow> real \<times> real \<Rightarrow> real \<times> real \<Rightarrow> plane_grid result \<times> visualizer_labeled" where
  "plot_plane s a b c d x_range y_range =
     (case np_meshgrid (np_linspace (fst x_range) (snd x_range) 10)
                       (np_linspace (fst y_range) (snd y_range) 10) of
        (xx, yy) \<Rightarrow>
          (let zz = map2 (\<lambda>xrow yrow.
                       map2 (\<lambda>x y. np_divide
                                      (np_subtract (np_subtract (Finite (- d)) (np_multiply (Finite a) x))
                                         (np_multiply (Finite b) y)) c)
                         xrow yrow) xx yy
           in (Inr (xx, yy, zz), s)))"

text \<open>The part of \<open>visualize\<close> after the loop over the classes: the two planes.\<close>

definition add_plane :: "plotly \<Rightarrow> svc_fit \<Rightarrow> visualizer_labeled \<Rightarrow> figure \<Rightarrow> int \<Rightarrow> int \<Rightarrow> real \<times> real \<Rightarrow> real \<times> real \<Rightarrow> string \<Rightarrow> string \<Rightarrow> figure result \<times> visualizer_labeled" where
  "add_plane lib fit s fig class_a class_b x_range y_range colorscale name =
     (case train_svm fit s class_a class_b of
        (Inl e, s1) \<Rightarrow> (Inl e, s1)
      | (Inr (a, b, c, d), s1) \<Rightarrow>
          (case plot_plane s1 a b c d x_range y_range of
             (Inl e, s2) \<Rightarrow> (Inl e, s2)
           | (Inr (xx, yy, zz), s2) \<Rightarrow>
               (let t = Surface xx yy zz (5 / 10) colorscale False name
                in case go_trace lib t of
                     Inl e \<Rightarrow> (Inl e, s2)
                   | Inr u \<Rightarrow> (Inr (add_trace fig t), s2))))"

definition visualize_two_svm :: "plotly \<Rightarrow> colormap \<Rightarrow> svc_fit \<Rightarrow> visualizer_labeled \<Rightarrow> unit result \<times> visualizer_labeled" where
  "visualize_two_svm lib get_cmap fit s =
     (case (point_cloud s, point_classes s) of
        (None, _) \<Rightarrow> (Inl not_loaded, s)
      | (Some pc, None) \<Rightarrow> (Inl not_loaded, s)
      | (Some pc, Some classes) \<Rightarrow>
          (case get_color_map get_cmap s of
             (Inl e, s1) \<Rightarrow> (Inl e, s1)
           | (Inr class_color_map, s1) \<Rightarrow>
               (let fig = go_Figure;
                    unique_classes = np_unique classes
                in case class_traces lib class_color_map pc classes unique_classes fig of
                     Inl e \<Rightarrow> (Inl e, s1)
                   | Inr fig1 \<Rightarrow>
                 (case np_min (col0 pc) of Inl e \<Rightarrow> (Inl e, s1) | Inr x_lo \<Rightarrow>
                 (case np_max (col0 pc) of Inl e \<Rightarrow> (Inl e, s1) | Inr x_hi \<Rightarrow>
                 (case np_min (col1 pc) of Inl e \<Rightarrow> (Inl e, s1) | Inr y_lo \<Rightarrow>
                 (case np_max (col1 pc) of Inl e \<Rightarrow> (Inl e, s1) | Inr y_hi \<Rightarrow>
                 (let x_range = (x_lo, x_hi); y_range = (y_lo, y_hi) in
                  case add_plane lib fit s1 fig1 1 2 x_range y_range ''Viridis'' ''Plane 1: Class 1 vs Class 2'' of
                    (Inl e, s2) \<Rightarrow> (Inl e, s2)
                  | (Inr fig2, s2) \<Rightarrow>
                 (case add_plane lib fit s2 fig2 1 3 x_range y_range ''Cividis'' ''Plane 2: Class 1 vs Class 3'' of
                    (Inl e, s3) \<Rightarrow> (Inl e, s3)
                  | (Inr fig3, s3) \<Rightarrow> (pio_show lib (update_layout fig3), s3))))))))))"

text \<open>
  The z-grid of \<open>plot_plane\<close> written by rows and columns: row \<open>i\<close>, column \<open>j\<close> is
  computed from \<open>xs ! j\<close> and \<open>ys ! i\<close>.
\<close>

definition plane_z :: "real \<Rightarrow> real \<Rightarrow> real \<Rightarrow> real \<Rightarrow> np_float list \<Rightarrow> np_float list \<Rightarrow> np_float list list" where
  "plane_z a b c d xs ys =
     map (\<lambda>y. map (\<lambda>x. np_divide
                            (np_subtract (np_subtract (Finite (- d)) (np_multiply (Finite a) x))
                               (np_multiply (Finite b) y)) c) xs) ys"

section \<open>The traces in the words of the specification\<close>

text \<open>
  The points carrying a label, in file order, and the scatter trace of a label: the
  columns of those points, the colour the dictionary gives the label, and the legend
  entry of the label.
\<close>

definition points_with_label :: "point list \<Rightarrow> int list \<Rightarrow> int \<Rightarrow> point list" where
  "points_with_label pc classes c = map fst (filter (\<lambda>(p, l). l = c) (zip pc classes))"

definition color_text :: "rgb \<Rightarrow> string" where
  "color_text color_rgb = (case color_hex_of color_rgb of Inr color_hex \<Rightarrow> color_hex | Inl e \<Rightarrow> [])"

definition class_trace :: "(int option \<rightharpoonup> rgb) \<Rightarrow> point list \<Rightarrow> int list \<Rightarrow> int \<Rightarrow> trace" where
  "class_trace class_color_map pc classes c =
     (let ps = points_with_label pc classes c
      in Scatter3d (col0 ps) (col1 ps) (col2 ps) ''markers'' 2
           (color_text (the (class_color_map (Some c)))) (8 / 10) (''Class '' @ str_int c))"

fun trace_name :: "trace \<Rightarrow> string" where
  "trace_name (Scatter3d xs ys zs md sz color op nm) = nm"
| "trace_name (Surface xx yy zz op colorscale showscale nm) = nm"

section \<open>The training set in the words of the specification\<close>

text \<open>
  The indices of the points whose label is \<open>class_a\<close> or \<open>class_b\<close>, in file order; the
  training points are the points at those indices and the training label of such a
  point is 0 if its label is \<open>class_a\<close> and 1 otherwise.
\<close>

definition training_indices :: "int list \<Rightarrow> int \<Rightarrow> int \<Rightarrow> nat list" where
  "training_indices classes class_a class_b =
     filter (\<lambda>i. classes ! i = class_a \<or> classes ! i = class_b) [0..<length classes]"

definition training_points :: "point list \<Rightarrow> int list \<Rightarrow> int \<Rightarrow> int \<Rightarrow> point list" where
  "training_points pc classes class_a class_b =
     map (\<lambda>i. pc ! i) (training_indices classes class_a class_b)"

definition training_labels :: "int list \<Rightarrow> int \<Rightarrow> int \<Rightarrow> int list" where
  "training_labels classes class_a class_b =
     map (\<lambda>i. if classes ! i = class_a then 0 else 1) (training_indices classes class_a class_b)"

section \<open>Raising ValueError\<close>

text \<open>An exception is a \<open>ValueError\<close> when its class is \<open>ValueError\<close> or derives from it.\<close>

definition isinstance_ValueError :: "py_exception \<Rightarrow> bool" where
  "isinstance_ValueError e = (exc_class_of e = ValueError \<or> exc_class_of e = UnicodeEncodeError)"

definition raises_ValueError :: "'a result \<Rightarrow> bool" where
  "raises_ValueError r = (case r of Inl e \<Rightarrow> isinstance_ValueError e | Inr v \<Rightarrow> False)"

text \<open>The two conditions under which the \<open>visualize\<close> methods refuse to draw.\<close>

definition unloaded :: "visualizer \<Rightarrow> bool" where
  "unloaded t = (point_cloud t = None)"

definition unloaded_labeled :: "visualizer_labeled \<Rightarrow> bool" where
  "unloaded_labeled s = (point_cloud s = None \<or> point_classes s = None)"

text \<open>
  The ranges \<open>visualize\<close> hands to \<open>plot_plane\<close>, and the surface trace it adds for a
  plane: the least and greatest x and y of the cloud, and the grids of \<open>plot_plane\<close>.
\<close>

definition cloud_x_range :: "point list \<Rightarrow> real \<times> real" where
  "cloud_x_range pc = (Min (set (col0 pc)), Max (set (col0 pc)))"

definition cloud_y_range :: "point list \<Rightarrow> real \<times> real" where
  "cloud_y_range pc = (Min (set (col1 pc)), Max (set (col1 pc)))"

definition plane_surface :: "real \<times> real \<times> real \<times> real \<Rightarrow> real \<times> real \<Rightarrow> real \<times> real \<Rightarrow> string \<Rightarrow> string \<Rightarrow> trace" where
  "plane_surface coeffs x_range y_range colorscale name =
     (case coeffs of (a, b, c, d) \<Rightarrow>
        (let xs = np_linspace (fst x_range) (snd x_range) 10;
             ys = np_linspace (fst y_range) (snd y_range) 10
         in Surface (replicate 10 xs) (map (\<lambda>y. replicate 10 y) ys) (plane_z a b c d xs ys)
              (5 / 10) colorscale False name))"


text \<open>The two planes of \<open>visualize\<close>, once the class traces are in the figure.\<close>

definition two_planes :: "plotly \<Rightarrow> svc_fit \<Rightarrow> visualizer_labeled \<Rightarrow> point list \<Rightarrow> figure \<Rightarrow> unit result" where
  "two_planes lib fit s pc fig1 =
     (case fst (train_svm fit s 1 2) of
        Inl e \<Rightarrow> Inl e
      | Inr p1 \<Rightarrow>
        (let t1 = plane_surface p1 (cloud_x_range pc) (cloud_y_range pc) ''Viridis''
                    ''Plane 1: Class 1 vs Class 2''
         in case go_trace lib t1 of
              Inl e \<Rightarrow> Inl e
            | Inr u \<Rightarrow>
              (case fst (train_svm fit s 1 3) of
                 Inl e \<Rightarrow> Inl e
               | Inr p2 \<Rightarrow>
                 (let t2 = plane_surface p2 (cloud_x_range pc) (cloud_y_range pc) ''Cividis''
                             ''Plane 2: Class 1 vs Class 3''
                  in case go_trace lib t2 of
                       Inl e \<Rightarrow> Inl e
                     | Inr u \<Rightarrow> pio_show lib (update_layout (add_trace (add_trace fig1 t1) t2))))))"

section \<open>Sequences of method calls\<close>

text \<open>
  The methods of the labeled classes that can be called on an object once it is loaded,
  with their arguments, and the object as a sequence of such calls leaves it (whether
  a call returns or raises).
\<close>

datatype method_call =
    Get_color_map
  | Train_svm int int
  | Plot_plane real real real real "real \<times> real" "real \<times> real"
  | Visualize_go_label
  | Visualize_two_svm

fun call :: "plotly \<Rightarrow> colormap \<Rightarrow> svc_fit \<Rightarrow> method_call \<Rightarrow> visualizer_labeled \<Rightarrow> visualizer_labeled" where
  "call lib cm fit Get_color_map s = snd (get_color_map cm s)"
| "call lib cm fit (Train_svm class_a class_b) s = snd (train_svm fit s class_a class_b)"
| "call lib cm fit (Plot_plane a b c d x_range y_range) s = snd (plot_plane s a b c d x_range y_range)"
| "call lib cm fit Visualize_go_label s = snd (visualize_go_label lib cm s)"
| "call lib cm fit Visualize_two_svm s = snd (visualize_two_svm lib cm fit s)"

definition calls :: "plotly \<Rightarrow> colormap \<Rightarrow> svc_fit \<Rightarrow> method_call list \<Rightarrow> visualizer_labeled \<Rightarrow> visualizer_labeled" where
  "calls lib cm fit ms s = fold (call lib cm fit) ms s"

text \<open>The invariant of a loaded labeled point cloud: as many rows as labels.\<close>

definition rows_match_labels :: "visualizer_labeled \<Rightarrow> bool" where
  "rows_match_labels s =
     (case (point_cloud s, point_classes s) of
        (Some pc, Some classes) \<Rightarrow> length pc = length classes
      | _ \<Rightarrow> False)"

section \<open>Sample inputs\<close>

definition sample_las :: las_data where
  "sample_las =
     [\<lparr>X = 0, Y = 0, Z = 0, classification = 1\<rparr>,
      \<lparr>X = 1, Y = 0, Z = 1, classification = 2\<rparr>,
      \<lparr>X = 0, Y = 2, Z = 1, classification = 3\<rparr>,
      \<lparr>X = 4, Y = 4, Z = 2, classification = 1\<rparr>]"

definition sample_read :: las_reader where
  "sample_read p = Inr sample_las"

definition empty_read :: las_reader where
  "empty_read p = Inr []"

definition sample_cmap :: colormap where
  "sample_cmap n i =
     (if even i then Unit_float 0 else Unit_float 1, Unit_float 0, Unit_float 1, Unit_float 1)"

definition sample_fit :: svc_fit where
  "sample_fit points labels = Inr \<lparr>coef = [[1, 1, 2]], intercept = [- 3]\<rparr>"


definition sample_plotly :: plotly where
  "sample_plotly = \<lparr>go_trace = (\<lambda>t. Inr ()), pio_show = (\<lambda>fig. Inr ())\<rparr>"





definition sample_draw :: "o3d_scene effect" where
  "sample_draw scene = Inr ()"

definition empty_mesh_refused :: "pv_scene effect" where
  "empty_mesh_refused scene =
     (if pv_points scene = [] then Inl (Exc ValueError ''Empty meshes cannot be plotted.'')
      else Inr ())"

definition quiet_print :: "string effect" where
  "quiet_print line = Inr ()"

definition ascii_print :: "string effect" where
  "ascii_print line =
     (if list_ex (\<lambda>c. 127 < (of_char c :: nat)) line
      then Inl (Exc UnicodeEncodeError ''ascii codec cannot encode character'')
      else Inr ())"

definition interrupted_load :: "string \<Rightarrow> real list result" where
  "interrupted_load p = Inl (Exc KeyboardInterrupt [])"

definition missing_load :: "string \<Rightarrow> real list result" where
  "missing_load p = Inl (Exc OSError ''No such file or directory'')"

definition accented_load :: "string \<Rightarrow> real list result" where
  "accented_load p = Inl (Exc OSError (''No such file or directory: '' @ p))"

definition array_load :: "string \<Rightarrow> real list result" where
  "array_load p = Inr [1, 2, 3]"

definition sample_loaded :: visualizer_labeled where
  "sample_loaded = snd (load_las_file_labeled sample_read (init_labeled ''scan.las''))"

definition empty_cloud :: visualizer where
  "empty_cloud = snd (load_las_file empty_read (init ''empty.las''))"

definition empty_loaded :: visualizer_labeled where
  "empty_loaded = snd (load_las_file_labeled empty_read (init_labeled ''empty.las''))"

section \<open>Facts about the NumPy operations\<close>

lemma fold_min_Min: "fold min rest (x::real) = Min (set (x # rest))"
  by (rule Min.set_eq_fold [symmetric])

lemma fold_max_Max: "fold max rest (x::real) = Max (set (x # rest))"
  by (rule Max.set_eq_fold [symmetric])

lemma np_min_nonempty: "xs \<noteq> [] \<Longrightarrow> np_min xs = Inr (Min (set xs))"
  by (cases xs) (simp_all add: np_min_def fold_min_Min del: set_simps)

lemma np_max_nonempty: "xs \<noteq> [] \<Longrightarrow> np_max xs = Inr (Max (set xs))"
  by (cases xs) (simp_all add: np_max_def fold_max_Max del: set_simps)

lemma np_min_empty: "raises (np_min [])"
  by (simp add: np_min_def raises_def)

section \<open>Facts about float64 rounding\<close>

lemma floor_log2_bounds:
  assumes "0 < x"
  shows "2 powi floor_log2 x \<le> x" "x < 2 powi (floor_log2 x + 1)"
proof -
  have "2 powi floor_log2 x \<le> x \<and> x < 2 powi (floor_log2 x + 1)"
  proof (cases "1 \<le> x")
    case True
    then have pos: "0 < \<lfloor>x\<rfloor>" by simp
    define n where "n = nat (bitlen \<lfloor>x\<rfloor> - 1)"
    from pos have bl: "0 < bitlen \<lfloor>x\<rfloor>" using bitlen_eq_zero_iff [of "\<lfloor>x\<rfloor>"] bitlen_nonneg [of "\<lfloor>x\<rfloor>"] by linarith
    then have n: "bitlen \<lfloor>x\<rfloor> - 1 = int n" "nat (bitlen \<lfloor>x\<rfloor>) = Suc n" by (simp_all add: n_def)
    from bitlen_bounds [OF pos] have b: "2 ^ n \<le> \<lfloor>x\<rfloor>" "\<lfloor>x\<rfloor> < 2 ^ Suc n"
      by (simp_all add: n)
    from b(1) have "(2::real) ^ n \<le> of_int \<lfloor>x\<rfloor>" by (metis of_int_le_iff of_int_numeral of_int_power)
    then have lo: "(2::real) ^ n \<le> x" by linarith
    from b(2) have "\<lfloor>x\<rfloor> + 1 \<le> 2 ^ Suc n" by simp
    then have "of_int (\<lfloor>x\<rfloor> + 1) \<le> (2::real) ^ Suc n" by (metis of_int_le_iff of_int_numeral of_int_power)
    then have hi: "x < (2::real) ^ Suc n" by linarith
    have fl: "floor_log2 x = int n" using True by (simp add: floor_log2_def n)
    show ?thesis using lo hi by (simp add: fl power_int_add)
  next
    case False
    with assms have x: "0 < x" "x < 1" by simp_all
    define m where "m = \<lceil>1 / x\<rceil>"
    from x have "1 < 1 / x" by simp
    then have m2: "2 \<le> m" unfolding m_def by linarith
    define k where "k = nat (bitlen (m - 1))"
    from m2 have pos: "0 < m - 1" by simp
    then have bl: "0 < bitlen (m - 1)" using bitlen_eq_zero_iff [of "m - 1"] bitlen_nonneg [of "m - 1"] by linarith
    then have k: "bitlen (m - 1) = int k" "0 < k" by (simp_all add: k_def)
    have k1: "nat (bitlen (m - 1) - 1) = k - 1" "nat (bitlen (m - 1)) = k"
      using bl by (simp_all add: k_def nat_diff_distrib')
    from bitlen_bounds [OF pos] have b: "2 ^ (k - 1) \<le> m - 1" "m - 1 < 2 ^ k"
      unfolding k1 by blast+
    have fl: "floor_log2 x = - int k" using False by (simp add: floor_log2_def k(1) [unfolded m_def])
    from b(2) have "m \<le> 2 ^ k" by simp
    then have "of_int m \<le> (2::real) ^ k" by (metis of_int_le_iff of_int_numeral of_int_power)
    moreover have "1 / x \<le> of_int m" unfolding m_def by simp
    ultimately have "1 / x \<le> 2 ^ k" by linarith
    then have lo: "1 / 2 ^ k \<le> x" using x(1)
      by (simp add: field_simps)
    from b(1) have "(2::real) ^ (k - 1) \<le> of_int (m - 1)" by (metis of_int_le_iff of_int_numeral of_int_power)
    moreover have "of_int (m - 1) < 1 / x" unfolding m_def by simp linarith
    ultimately have "(2::real) ^ (k - 1) < 1 / x" by linarith
    then have hi: "x < 1 / 2 ^ (k - 1)" using x(1) by (simp add: field_simps)
    have e1: "(2::real) powi (- int k) = 1 / 2 ^ k" by (simp add: power_int_minus field_simps)
    have e2: "(2::real) powi (- int k + 1) = 1 / 2 ^ (k - 1)"
    proof -
      have "- int k + 1 = - int (k - 1)" using k(2) by simp
      then have "(2::real) powi (- int k + 1) = 2 powi (- int (k - 1))" by (simp only:)
      also have "\<dots> = 1 / 2 ^ (k - 1)" by (simp only: power_int_minus power_int_of_nat inverse_eq_divide)
      finally show ?thesis .
    qed
    show ?thesis unfolding fl e1 e2 using lo hi by blast
  qed
  then show "2 powi floor_log2 x \<le> x" "x < 2 powi (floor_log2 x + 1)" by simp_all
qed


lemma round_half_even_error: "\<bar>of_int (round_half_even q) - q\<bar> \<le> 1 / 2"
  unfolding round_half_even_def Let_def by (auto; linarith)

lemma round_half_even_of_int: "round_half_even (of_int n) = n"
  by (simp add: round_half_even_def)


lemma nearest_float_error:
  "\<bar>nearest_float x - x\<bar> \<le> 2 powi ulp_exponent x / 2"
proof (cases "x = 0")
  case True
  then show ?thesis by (simp add: nearest_float_def)
next
  case False
  define e where "e = ulp_exponent x"
  have p: "(0::real) < 2 powi e" by simp
  define q where "q = x / 2 powi e"
  have x: "x = q * 2 powi e" using p by (simp add: q_def)
  have nf: "nearest_float x = of_int (round_half_even q) * 2 powi e"
    using False by (simp add: nearest_float_def e_def q_def)
  have "nearest_float x - x = of_int (round_half_even q) * 2 powi e - q * 2 powi e"
    unfolding nf using x by simp
  then have "nearest_float x - x = (of_int (round_half_even q) - q) * 2 powi e"
    by (simp add: algebra_simps)
  then have "\<bar>nearest_float x - x\<bar> = \<bar>of_int (round_half_even q) - q\<bar> * 2 powi e"
    using p by (simp add: abs_mult)
  also have "\<dots> \<le> (1 / 2) * 2 powi e"
    using round_half_even_error [of q] p by (intro mult_right_mono) simp_all
  finally show ?thesis by (simp add: e_def)
qed

lemma ulp_exponent_bound:
  assumes "x \<noteq> 0"
  shows "2 powi ulp_exponent x \<le> \<bar>x\<bar> / 2 ^ 52 + 1 / 2 ^ 1074"
proof -
  from assms have pos: "0 < \<bar>x\<bar>" by simp
  show ?thesis
  proof (cases "floor_log2 \<bar>x\<bar> - 52 \<le> - 1074")
    case True
    then have "ulp_exponent x = - 1074" by (simp add: ulp_exponent_def)
    then have "(2::real) powi ulp_exponent x = 1 / 2 ^ 1074"
      by (simp add: power_int_minus field_simps)
    then show ?thesis by simp
  next
    case False
    then have e: "ulp_exponent x = floor_log2 \<bar>x\<bar> - 52" by (simp add: ulp_exponent_def)
    have "(2::real) powi ulp_exponent x = 2 powi floor_log2 \<bar>x\<bar> / 2 ^ 52"
      unfolding e by (simp add: power_int_diff)
    also have "\<dots> \<le> \<bar>x\<bar> / 2 ^ 52"
      using floor_log2_bounds(1) [OF pos] by (simp add: divide_right_mono)
    finally show ?thesis by simp
  qed
qed

lemma nearest_float_close:
  "\<bar>nearest_float x - x\<bar> \<le> \<bar>x\<bar> / 2 ^ 53 + 1 / 2 ^ 1075"
proof (cases "x = 0")
  case True
  then show ?thesis by (simp add: nearest_float_def)
next
  case False
  have "2 powi ulp_exponent x / 2 \<le> (\<bar>x\<bar> / 2 ^ 52 + 1 / 2 ^ 1074) / 2"
    using ulp_exponent_bound [OF False] by (intro divide_right_mono) simp_all
  with nearest_float_error [of x]
  have "\<bar>nearest_float x - x\<bar> \<le> (\<bar>x\<bar> / 2 ^ 52 + 1 / 2 ^ 1074) / 2"
    by (rule order_trans)
  also have "\<dots> = \<bar>x\<bar> / 2 ^ 53 + 1 / 2 ^ 1075" by (simp add: field_simps)
  finally show ?thesis .
qed






lemma np_multiply_Finite:
  "np_multiply u v = Finite p \<Longrightarrow> \<exists>x y. u = Finite x \<and> v = Finite y \<and> round64 (x * y) = Finite p"
  by (cases u; cases v) (simp_all add: np_multiply_def)

lemma np_add_Finite:
  "np_add u v = Finite p \<Longrightarrow> \<exists>x y. u = Finite x \<and> v = Finite y \<and> round64 (x + y) = Finite p"
  by (cases u; cases v) (simp_all add: np_add_def)




section \<open>utils/read\_npy\_file.py: what is returned and what propagates\<close>

text \<open>
  C7, as the code has it: \<open>read_npy_file\<close> returns the loaded array when the load
  succeeds. When the load raises an instance of \<open>Exception\<close> it prints
  "An error occurred: " followed by the message and returns \<open>None\<close>, provided the
  \<^verbatim>\<open>print\<close> returns; an exception that \<^verbatim>\<open>print\<close> raises inside the handler propagates.
  An exception of the load outside the \<open>Exception\<close> hierarchy is not caught and
  propagates. Nothing else reaches the caller.
\<close>

theorem read_npy_file_spec:
  "(np_load fp = Inr data \<longrightarrow> read_npy_file np_load py_print fp = Inr (Some data)) \<and>
   (np_load fp = Inl e \<and> isinstance_Exception e \<and>
      py_print (''An error occurred: '' @ str_exc e) = Inr ()
      \<longrightarrow> read_npy_file np_load py_print fp = Inr None) \<and>
   (np_load fp = Inl e \<and> isinstance_Exception e \<and>
      py_print (''An error occurred: '' @ str_exc e) = Inl e'
      \<longrightarrow> read_npy_file np_load py_print fp = Inl e') \<and>
   (np_load fp = Inl e \<and> \<not> isinstance_Exception e \<longrightarrow> read_npy_file np_load py_print fp = Inl e) \<and>
   (raises (read_npy_file np_load py_print fp) \<longleftrightarrow>
      (\<exists>x. np_load fp = Inl x \<and>
         (\<not> isinstance_Exception x \<or> raises (py_print (''An error occurred: '' @ str_exc x)))))"
  by (auto simp: read_npy_file_def raises_def split: sum.splits)

theorem read_npy_file_spec_witness:
  "read_npy_file array_load quiet_print ''a.npy'' = Inr (Some [1, 2, 3]) \<and>
   read_npy_file missing_load quiet_print ''a.npy'' = Inr None \<and>
   read_npy_file accented_load ascii_print (''caf'' @ [CHR 0xE9] @ ''.npy'') =
     Inl (Exc UnicodeEncodeError ''ascii codec cannot encode character'') \<and>
   raises (read_npy_file interrupted_load quiet_print ''a.npy'')"
  using read_npy_file_spec [of array_load "''a.npy''" "[1, 2, 3]" quiet_print]
    read_npy_file_spec [of missing_load "''a.npy''" _ quiet_print
      "Exc OSError ''No such file or directory''"]
    read_npy_file_spec [of accented_load "''caf'' @ [CHR 0xE9] @ ''.npy''" _ ascii_print
      "Exc OSError (''No such file or directory: '' @ ''caf'' @ [CHR 0xE9] @ ''.npy'')"
      "Exc UnicodeEncodeError ''ascii codec cannot encode character''"]
    read_npy_file_spec [of interrupted_load "''a.npy''" _ quiet_print "Exc KeyboardInterrupt []"]
  by (simp add: array_load_def missing_load_def accented_load_def interrupted_load_def
      quiet_print_def ascii_print_def raises_def)

text \<open>
  The claim as stated fails: a \<open>KeyboardInterrupt\<close> raised while loading reaches the
  caller.
\<close>

theorem read_npy_file_propagates_counterexample:
  "read_npy_file interrupted_load quiet_print ''your_file.npy'' = Inl (Exc KeyboardInterrupt [])"
  by (simp add: read_npy_file_def interrupted_load_def)

section \<open>utils/utils\_range.py: the ranges\<close>

lemma np_min_map: "las \<noteq> [] \<Longrightarrow> np_min (map f las) = Inr (Min (f ` set las))"
  by (simp add: np_min_nonempty)

lemma np_max_map: "las \<noteq> [] \<Longrightarrow> np_max (map f las) = Inr (Max (f ` set las))"
  by (simp add: np_max_nonempty)

lemma get_xyz_ranges_value:
  assumes "read fp = Inr las" "las \<noteq> []"
  shows "get_xyz_ranges read fp =
     Inr [''x_range'' \<mapsto> (Min (X ` set las), Max (X ` set las)),
          ''y_range'' \<mapsto> (Min (Y ` set las), Max (Y ` set las)),
          ''z_range'' \<mapsto> (Min (Z ` set las), Max (Z ` set las))]"
  using assms
  by (simp add: get_xyz_ranges_def las_x_def las_y_def las_z_def np_min_map np_max_map)

text \<open>
  C9: for a file that is read and holds at least one point, \<open>get_xyz_ranges\<close> returns a
  dictionary with exactly the keys \<open>x_range\<close>, \<open>y_range\<close> and \<open>z_range\<close>; each value is
  the pair of the least and the greatest value of that coordinate over the points, the
  first component is at most the second, and every point's coordinate lies between them.
\<close>

theorem get_xyz_ranges_spec:
  assumes "read fp = Inr las" "las \<noteq> []"
  shows "\<exists>m xr yr zr. get_xyz_ranges read fp = Inr m \<and>
     dom m = {''x_range'', ''y_range'', ''z_range''} \<and>
     m ''x_range'' = Some xr \<and> m ''y_range'' = Some yr \<and> m ''z_range'' = Some zr \<and>
     xr = (Min (X ` set las), Max (X ` set las)) \<and>
     yr = (Min (Y ` set las), Max (Y ` set las)) \<and>
     zr = (Min (Z ` set las), Max (Z ` set las)) \<and>
     fst xr \<le> snd xr \<and> fst yr \<le> snd yr \<and> fst zr \<le> snd zr \<and>
     (\<forall>p \<in> set las. fst xr \<le> X p \<and> X p \<le> snd xr \<and>
                     fst yr \<le> Y p \<and> Y p \<le> snd yr \<and>
                     fst zr \<le> Z p \<and> Z p \<le> snd zr)"
proof -
  from assms(2) obtain p0 where p0: "p0 \<in> set las" by (cases las) auto
  have le: "Min (f ` set las) \<le> Max (f ` set las)" for f :: "las_point \<Rightarrow> real"
    using p0 by (meson List.finite_set Max_ge Min_le finite_imageI imageI order_trans)
  show ?thesis
    unfolding get_xyz_ranges_value [of read fp las, OF assms]
    by (auto simp: le)
qed

theorem get_xyz_ranges_spec_witness:
  "\<exists>m. get_xyz_ranges sample_read ''scan.las'' = Inr m \<and>
       m ''x_range'' = Some (0, 4) \<and> m ''y_range'' = Some (0, 4) \<and> m ''z_range'' = Some (0, 2)"
proof -
  have r: "sample_read ''scan.las'' = Inr sample_las" by (simp add: sample_read_def)
  have n: "sample_las \<noteq> []" by (simp add: sample_las_def)
  from get_xyz_ranges_spec [of sample_read "''scan.las''" sample_las, OF r n] show ?thesis
    by (auto simp: sample_las_def)
qed

section \<open>The methods leave the object as it is\<close>

lemma get_color_map_state: "snd (get_color_map cm s) = s"
  by (simp add: get_color_map_def Let_def)

lemma train_svm_state: "snd (train_svm fit s class_a class_b) = s"
  by (simp add: train_svm_def Let_def split: option.splits sum.splits list.splits)

lemma plot_plane_state: "snd (plot_plane s a b c d x_range y_range) = s"
  by (simp add: plot_plane_def Let_def split: prod.splits)

lemma add_plane_state: "snd (add_plane lib fit s fig class_a class_b x_range y_range cs nm) = s"
  by (simp add: add_plane_def Let_def case_prod_beta train_svm_state plot_plane_state
      split: sum.splits)

lemma visualize_go_label_state: "snd (visualize_go_label lib cm s) = s"
  by (simp add: visualize_go_label_def Let_def case_prod_beta get_color_map_state
      split: option.splits sum.splits)

lemma visualize_two_svm_state: "snd (visualize_two_svm lib cm fit s) = s"
  by (simp add: visualize_two_svm_def Let_def case_prod_beta get_color_map_state add_plane_state
      split: option.splits sum.splits)

lemma visualize_o3d_state: "snd (visualize_o3d draw s) = s"
  by (simp add: visualize_o3d_def split: option.splits)

lemma visualize_pv_state: "snd (visualize_pv render s) = s"
  by (simp add: visualize_pv_def split: option.splits)

lemma call_state: "call lib cm fit m s = s"
  by (cases m)
    (simp_all add: get_color_map_state train_svm_state plot_plane_state
       visualize_go_label_state visualize_two_svm_state)

lemma calls_state: "calls lib cm fit ms s = s"
  unfolding calls_def by (induction ms) (simp_all add: call_state)

section \<open>Loading\<close>

lemma np_vstack3_las:
  "np_vstack3 (las_x las) (las_y las) (las_z las) = Inr (las_x las, las_y las, las_z las)"
  by (simp add: np_vstack3_def las_x_def las_y_def las_z_def)

lemma length_np_transpose3: "length (np_transpose3 (x, y, z)) = length x"
  by simp

lemma nth_np_transpose3: "i < length x \<Longrightarrow> np_transpose3 (x, y, z) ! i = (x ! i, y ! i, z ! i)"
  by simp

lemma load_las_file_value:
  "read (file_path s) = Inr las \<Longrightarrow>
   load_las_file read s =
     (Inr (), s\<lparr>point_cloud := Some (np_transpose3 (las_x las, las_y las, las_z las))\<rparr>)"
  by (simp add: load_las_file_def np_vstack3_las Let_def del: np_transpose3.simps)

lemma load_las_file_labeled_value:
  "read (file_path s) = Inr las \<Longrightarrow>
   load_las_file_labeled read s =
     (Inr (), s\<lparr>point_cloud := Some (np_transpose3 (las_x las, las_y las, las_z las)),
                point_classes := Some (las_classification las)\<rparr>)"
  by (simp add: load_las_file_labeled_def np_vstack3_las Let_def del: np_transpose3.simps)

lemma load_las_file_labeled_returns:
  assumes "load_las_file_labeled read s = (Inr u, s')"
  shows "\<exists>las. read (file_path s) = Inr las \<and>
           s' = s\<lparr>point_cloud := Some (np_transpose3 (las_x las, las_y las, las_z las)),
                  point_classes := Some (las_classification las)\<rparr>"
proof (cases "read (file_path s)")
  case (Inl e)
  with assms show ?thesis by (simp add: load_las_file_labeled_def)
next
  case (Inr las)
  from load_las_file_labeled_value [of read s las, OF Inr] assms show ?thesis
    using Inr by simp
qed

text \<open>
  C5: when the file is read, \<open>load_las_file\<close> (the same in PointCloudVisualizer.py and
  PointCloudVisualizer\_laspy.py) returns and stores an array with one row per point of
  the file, in file order: row \<open>i\<close> is \<open>(x[i], y[i], z[i])\<close>.
\<close>

theorem load_las_file_rows:
  assumes "read (file_path s) = Inr las"
  shows "\<exists>pc. load_las_file read s = (Inr (), s\<lparr>point_cloud := Some pc\<rparr>) \<and>
           length pc = length las \<and>
           (\<forall>i < length las. pc ! i = (las_x las ! i, las_y las ! i, las_z las ! i))"
proof (intro exI conjI)
  show "load_las_file read s =
      (Inr (), s\<lparr>point_cloud := Some (np_transpose3 (las_x las, las_y las, las_z las))\<rparr>)"
    by (rule load_las_file_value [of read s las, OF assms])
  show "length (np_transpose3 (las_x las, las_y las, las_z las)) = length las"
    by (simp add: las_x_def)
  show "\<forall>i < length las. np_transpose3 (las_x las, las_y las, las_z las) ! i =
          (las_x las ! i, las_y las ! i, las_z las ! i)"
    by (simp add: las_x_def)
qed

theorem load_las_file_rows_witness:
  "point_cloud (snd (load_las_file sample_read (init ''scan.las''))) =
     Some [(0, 0, 0), (1, 0, 1), (0, 2, 1), (4, 4, 2)]"
proof -
  have r: "sample_read (file_path (init ''scan.las'')) = Inr sample_las"
    by (simp add: sample_read_def)
  from load_las_file_rows [of sample_read "init ''scan.las''" sample_las, OF r]
  obtain pc where pc: "load_las_file sample_read (init ''scan.las'') =
        (Inr (), (init ''scan.las'')\<lparr>point_cloud := Some pc\<rparr>)"
      "length pc = length sample_las"
      "\<forall>i < length sample_las. pc ! i = (las_x sample_las ! i, las_y sample_las ! i, las_z sample_las ! i)"
    by blast
  have l: "length pc = 4" using pc(2) by (simp add: sample_las_def)
  have "pc ! 0 = (0, 0, 0)" "pc ! 1 = (1, 0, 1)" "pc ! 2 = (0, 2, 1)" "pc ! 3 = (4, 4, 2)"
    using pc(3) by (simp_all add: sample_las_def las_x_def las_y_def las_z_def)
  then have "pc = [(0, 0, 0), (1, 0, 1), (0, 2, 1), (4, 4, 2)]"
    using l by (intro nth_equalityI) (auto simp: nth_Cons' less_Suc_eq numeral_eq_Suc)
  with pc(1) show ?thesis by simp
qed

text \<open>
  C2: when \<open>load_las_file\<close> of a labeled class returns, the stored coordinate array has
  as many rows as the stored label array has entries, and this still holds after any
  sequence of calls of \<open>get_color_map\<close>, \<open>train_svm\<close>, \<open>plot_plane\<close> and \<open>visualize\<close>,
  whatever their arguments and whether they return or raise.
\<close>

theorem rows_match_labels_after_load:
  assumes "load_las_file_labeled read s = (Inr u, s')"
  shows "rows_match_labels s' \<and> rows_match_labels (calls lib cm fit ms s')"
proof -
  from load_las_file_labeled_returns [of read s u s', OF assms] obtain las where
    s': "s' = s\<lparr>point_cloud := Some (np_transpose3 (las_x las, las_y las, las_z las)),
                point_classes := Some (las_classification las)\<rparr>"
    by blast
  have "rows_match_labels s'"
    unfolding s' by (simp add: rows_match_labels_def las_x_def las_classification_def)
  then show ?thesis by (simp add: calls_state)
qed

theorem rows_match_labels_after_load_witness:
  "rows_match_labels (snd (load_las_file_labeled sample_read (init_labeled ''scan.las''))) \<and>
   rows_match_labels
     (calls sample_plotly sample_cmap sample_fit
        [Get_color_map, Train_svm 1 2, Plot_plane 1 1 2 (- 3) (0, 4) (0, 4), Visualize_go_label,
         Visualize_two_svm]
        (snd (load_las_file_labeled sample_read (init_labeled ''scan.las''))))"
proof -
  have r: "sample_read (file_path (init_labeled ''scan.las'')) = Inr sample_las"
    by (simp add: sample_read_def)
  have "load_las_file_labeled sample_read (init_labeled ''scan.las'') =
          (Inr (), snd (load_las_file_labeled sample_read (init_labeled ''scan.las'')))"
    by (simp add: load_las_file_labeled_value [of sample_read "init_labeled ''scan.las''" sample_las, OF r] del: np_transpose3.simps)
  from rows_match_labels_after_load [of sample_read "init_labeled ''scan.las''" "()", OF this] show ?thesis by blast
qed

text \<open>
  C4: no method other than \<open>load_las_file\<close> assigns to the object: \<open>get_color_map\<close>,
  \<open>train_svm\<close>, \<open>plot_plane\<close> and every variant of \<open>visualize\<close> leave \<open>file_path\<close>,
  \<open>point_cloud\<close> and \<open>point_classes\<close> as they were, whether they return or raise, and so
  does every sequence of such calls.
\<close>

theorem methods_leave_point_cloud_unchanged:
  "snd (get_color_map cm s) = s \<and>
   snd (train_svm fit s class_a class_b) = s \<and>
   snd (plot_plane s a b c d x_range y_range) = s \<and>
   snd (visualize_go_label lib cm s) = s \<and>
   snd (visualize_two_svm lib cm fit s) = s \<and>
   snd (visualize_o3d draw t) = t \<and>
   snd (visualize_pv render t) = t \<and>
   calls lib cm fit ms s = s \<and>
   file_path (calls lib cm fit ms s) = file_path s \<and>
   point_cloud (calls lib cm fit ms s) = point_cloud s \<and>
   point_classes (calls lib cm fit ms s) = point_classes s"
  by (simp add: get_color_map_state train_svm_state plot_plane_state visualize_go_label_state
      visualize_two_svm_state visualize_o3d_state visualize_pv_state calls_state)

theorem methods_leave_point_cloud_unchanged_witness:
  "calls sample_plotly sample_cmap sample_fit
     [Get_color_map, Train_svm 1 2, Plot_plane 1 1 2 (- 3) (0, 4) (0, 4), Visualize_go_label,
      Visualize_two_svm]
     (snd (load_las_file_labeled sample_read (init_labeled ''scan.las''))) =
   snd (load_las_file_labeled sample_read (init_labeled ''scan.las''))"
  using methods_leave_point_cloud_unchanged
    [where cm = sample_cmap and lib = sample_plotly and fit = sample_fit
       and s = "snd (load_las_file_labeled sample_read (init_labeled ''scan.las''))"]
  by blast

section \<open>more\_vis/two\_svm\_plane.py: the grid of a plane\<close>

lemma length_np_linspace: "length (np_linspace start stop num) = num"
  by (simp add: np_linspace_def Let_def)


lemma np_meshgrid_rows:
  "np_meshgrid xs ys = (xx, yy) \<Longrightarrow> length xx = length ys \<and> length yy = length ys"
  by (auto simp: np_meshgrid_def)

lemma np_meshgrid_nth:
  assumes "np_meshgrid xs ys = (xx, yy)" "i < length ys"
  shows "xx ! i = xs" "yy ! i = replicate (length xs) (ys ! i)"
  using assms by (auto simp: np_meshgrid_def)

lemma map2_replicate_row:
  "map2 f xs (replicate (length xs) y) = map (\<lambda>x. f x y) xs"
  by (induction xs) simp_all

lemma map2_meshgrid:
  "map2 (\<lambda>xrow yrow. map2 (g :: 'a \<Rightarrow> 'a \<Rightarrow> 'c) xrow yrow) (replicate (length ys) xs)
      (map (\<lambda>y. replicate (length xs) y) ys) =
   map (\<lambda>y. map (\<lambda>x. g x y) xs) ys"
  by (induction ys) (simp_all add: map2_replicate_row)

lemma plot_plane_value:
  "plot_plane s a b c d x_range y_range =
     (let xs = np_linspace (fst x_range) (snd x_range) 10;
          ys = np_linspace (fst y_range) (snd y_range) 10
      in (Inr (replicate 10 xs, map (\<lambda>y. replicate 10 y) ys, plane_z a b c d xs ys), s))"
  by (simp add: plot_plane_def np_meshgrid_def Let_def plane_z_def length_np_linspace
      map2_meshgrid [of _ "np_linspace (fst y_range) (snd y_range) 10"
        "np_linspace (fst x_range) (snd x_range) 10", unfolded length_np_linspace])

















section \<open>The colour dictionary and the class traces\<close>

lemma set_np_unique: "set (np_unique xs) = set xs"
  by (simp add: np_unique_def)

lemma distinct_np_unique: "distinct (np_unique xs)"
  by (simp add: np_unique_def)

lemma length_np_unique: "length (np_unique xs) = card (set xs)"
  using distinct_card [OF distinct_np_unique, of xs] by (simp add: set_np_unique)

lemma dom_fold_update:
  "dom (fold (\<lambda>(k, v) m. m(k \<mapsto> v)) kvs m0) = dom m0 \<union> fst ` set kvs"
  by (induction kvs arbitrary: m0) auto

lemma dom_dict_of: "dom (dict_of kvs) = fst ` set kvs"
  by (simp add: dict_of_def dom_fold_update)

lemma set_snd_enumerate: "snd ` set (enumerate n xs) = set xs"
  by (metis map_snd_enumerate set_map)

lemma get_color_map_loaded:
  assumes "point_classes s = Some classes"
  shows "\<exists>m. get_color_map cm s = (Inr m, s) \<and> dom m = Some ` set classes"
proof -
  let ?us = "map Some (np_unique classes)"
  let ?kvs = "map (\<lambda>(i, cls). (cls, first3 (cm (length ?us) i))) (enumerate 0 ?us)"
  have "fst ` set ?kvs = snd ` set (enumerate 0 ?us)"
    by (force simp: image_iff)
  also have "\<dots> = Some ` set classes"
    by (simp add: set_snd_enumerate set_np_unique)
  finally have "dom (dict_of ?kvs) = Some ` set classes"
    by (simp only: dom_dict_of)
  moreover have "get_color_map cm s = (Inr (dict_of ?kvs), s)"
    using assms by (simp add: get_color_map_def np_unique_obj_def Let_def)
  ultimately show ?thesis by blast
qed

lemma zip_as_map_nth:
  assumes "length xs = length ys"
  shows "zip xs ys = map (\<lambda>i. (xs ! i, ys ! i)) [0..<length ys]"
  using assms by (intro nth_equalityI) simp_all

lemma take_rows_where:
  assumes "length pc = length classes"
  shows "take_rows pc (np_where_eq classes c) = Inr (points_with_label pc classes c)"
proof -
  have inb: "list_all (\<lambda>i. i < length pc) (np_where_eq classes c)"
    using assms by (simp add: np_where_eq_def list_all_iff)
  have "points_with_label pc classes c =
      map fst (filter (\<lambda>(p, l). l = c) (map (\<lambda>i. (pc ! i, classes ! i)) [0..<length classes]))"
    by (simp only: points_with_label_def zip_as_map_nth [OF assms])
  also have "\<dots> = map (\<lambda>i. pc ! i) (np_where_eq classes c)"
    by (simp add: filter_map comp_def np_where_eq_def)
  finally show ?thesis using inb by (simp add: take_rows_def)
qed

lemma unit_product_finite:
  assumes "0 \<le> x" "x \<le> 1"
  shows "np_multiply (Finite x) (Finite 255) = Finite (nearest_float (x * 255))"
proof -
  have "\<bar>x * 255\<bar> \<le> 255" using assms by simp
  with nearest_float_close [of "x * 255"]
  have "\<bar>nearest_float (x * 255) - x * 255\<bar> \<le> 255 / 2 ^ 53 + 1 / 2 ^ 1075"
    by (simp add: field_simps)
  then have "\<bar>nearest_float (x * 255)\<bar> \<le> 255 + (255 / 2 ^ 53 + 1 / 2 ^ 1075)"
    using \<open>\<bar>x * 255\<bar> \<le> 255\<close> by linarith
  also have "\<dots> < 2 ^ 1024" by simp
  finally show ?thesis by (simp add: np_multiply_def round64_def)
qed

lemma color_hex_of_returns: "color_hex_of col = Inr (color_text col)"
proof -
  obtain r g b where col: "col = (r, g, b)" by (cases col) auto
  have u: "0 \<le> unit_value v \<and> unit_value v \<le> 1" for v
    using unit_value [of v] by simp
  have "\<exists>hex. color_hex_of col = Inr hex"
    using u [of r] u [of g] u [of b]
    by (simp add: col color_hex_of_def unit_product_finite int_of_float_def)
  then show ?thesis by (auto simp: color_text_def)
qed

lemma class_traces_step:
  assumes "length pc = length classes" "m (Some c) = Some col"
  shows "class_traces lib m pc classes (c # us) fig =
     (case go_trace lib (class_trace m pc classes c) of
        Inl e \<Rightarrow> Inl e
      | Inr u \<Rightarrow> class_traces lib m pc classes us (add_trace fig (class_trace m pc classes c)))"
  by (simp add: take_rows_where [OF assms(1)] assms(2) class_trace_def Let_def
      color_hex_of_returns split: sum.splits)

lemma class_traces_value:
  assumes "length pc = length classes" "\<forall>c \<in> set us. m (Some c) \<noteq> None"
    "\<forall>c \<in> set us. go_trace lib (class_trace m pc classes c) = Inr ()"
  shows "class_traces lib m pc classes us fig =
           Inr (fig\<lparr>traces := traces fig @ map (class_trace m pc classes) us\<rparr>)"
  using assms(2,3)
proof (induction us arbitrary: fig)
  case Nil
  then show ?case by simp
next
  case (Cons c us)
  from Cons.prems obtain col where col: "m (Some c) = Some col" by auto
  have rest: "\<forall>c \<in> set us. m (Some c) \<noteq> None"
    "\<forall>c \<in> set us. go_trace lib (class_trace m pc classes c) = Inr ()"
    using Cons.prems by simp_all
  have ok: "go_trace lib (class_trace m pc classes c) = Inr ()"
    using Cons.prems by simp
  show ?case
    by (simp add: class_traces_step [of pc classes m c col, OF assms(1) col] ok Cons.IH [OF rest]
        add_trace_def del: class_traces.simps)
qed

lemma class_traces_raises:
  assumes "length pc = length classes" "\<forall>c \<in> set us. m (Some c) \<noteq> None"
    "class_traces lib m pc classes us fig = Inl e"
  shows "\<exists>c \<in> set us. go_trace lib (class_trace m pc classes c) = Inl e"
  using assms(2,3)
proof (induction us arbitrary: fig)
  case Nil
  then show ?case by simp
next
  case (Cons c us)
  from Cons.prems obtain col where col: "m (Some c) = Some col" by auto
  have rest: "\<forall>c \<in> set us. m (Some c) \<noteq> None" using Cons.prems by simp
  show ?case
  proof (cases "go_trace lib (class_trace m pc classes c)")
    case (Inl e')
    with Cons.prems(2) have "e' = e"
      by (simp add: class_traces_step [of pc classes m c col, OF assms(1) col] del: class_traces.simps)
    with Inl show ?thesis by simp
  next
    case (Inr u)
    with Cons.prems(2) have
      "class_traces lib m pc classes us (add_trace fig (class_trace m pc classes c)) = Inl e"
      by (simp add: class_traces_step [of pc classes m c col, OF assms(1) col] del: class_traces.simps)
    from Cons.IH [OF rest this] show ?thesis by simp
  qed
qed

lemma class_traces_returns:
  assumes "length pc = length classes" "\<forall>c \<in> set us. m (Some c) \<noteq> None"
    "class_traces lib m pc classes us fig = Inr fig1"
  shows "fig1 = fig\<lparr>traces := traces fig @ map (class_trace m pc classes) us\<rparr>"
  using assms(2,3)
proof (induction us arbitrary: fig)
  case Nil
  then show ?case by simp
next
  case (Cons c us)
  from Cons.prems obtain col where col: "m (Some c) = Some col" by auto
  have rest: "\<forall>c \<in> set us. m (Some c) \<noteq> None" using Cons.prems by simp
  show ?case
  proof (cases "go_trace lib (class_trace m pc classes c)")
    case (Inl e')
    with Cons.prems(2) show ?thesis
      by (simp add: class_traces_step [of pc classes m c col, OF assms(1) col] del: class_traces.simps)
  next
    case (Inr u)
    with Cons.prems(2) have
      "class_traces lib m pc classes us (add_trace fig (class_trace m pc classes c)) = Inr fig1"
      by (simp add: class_traces_step [of pc classes m c col, OF assms(1) col] del: class_traces.simps)
    from Cons.IH [OF rest this] show ?thesis by (simp add: add_trace_def)
  qed
qed

lemma color_map_keys:
  assumes "dom m = Some ` set classes"
  shows "\<forall>c \<in> set (np_unique classes). m (Some c) \<noteq> None"
proof
  fix c assume "c \<in> set (np_unique classes)"
  then have "Some c \<in> dom m" by (simp add: assms set_np_unique)
  then show "m (Some c) \<noteq> None" by blast
qed

lemma visualize_go_label_loop:
  assumes "point_cloud s = Some pc" "point_classes s = Some classes"
    "get_color_map cm s = (Inr m, s)"
  shows "visualize_go_label lib cm s =
     (case class_traces lib m pc classes (np_unique classes) go_Figure of
        Inl e \<Rightarrow> (Inl e, s)
      | Inr fig1 \<Rightarrow> (pio_show lib (update_layout fig1), s))"
  using assms by (simp add: visualize_go_label_def Let_def)

lemma visualize_go_label_value:
  assumes "point_cloud s = Some pc" "point_classes s = Some classes"
    "length pc = length classes" "get_color_map cm s = (Inr m, s)" "dom m = Some ` set classes"
    "\<forall>c \<in> set (np_unique classes). go_trace lib (class_trace m pc classes c) = Inr ()"
  shows "visualize_go_label lib cm s =
     (pio_show lib
        (update_layout (go_Figure\<lparr>traces := map (class_trace m pc classes) (np_unique classes)\<rparr>)), s)"
  by (simp add: visualize_go_label_loop [OF assms(1,2,4)]
      class_traces_value [OF assms(3) color_map_keys [OF assms(5)] assms(6)] go_Figure_def)

lemma visualize_go_label_raises:
  assumes "point_cloud s = Some pc" "point_classes s = Some classes"
    "length pc = length classes" "get_color_map cm s = (Inr m, s)" "dom m = Some ` set classes"
    "fst (visualize_go_label lib cm s) = Inl e"
  shows "(\<exists>c \<in> set (np_unique classes). go_trace lib (class_trace m pc classes c) = Inl e) \<or>
     pio_show lib
       (update_layout (go_Figure\<lparr>traces := map (class_trace m pc classes) (np_unique classes)\<rparr>)) = Inl e"
proof (cases "class_traces lib m pc classes (np_unique classes) go_Figure")
  case (Inl e')
  with assms(6) have "e' = e"
    by (simp add: visualize_go_label_loop [OF assms(1,2,4)])
  with Inl class_traces_raises [OF assms(3) color_map_keys [OF assms(5)], of lib go_Figure e]
  show ?thesis by simp
next
  case (Inr fig1)
  from class_traces_returns [OF assms(3) color_map_keys [OF assms(5)] Inr]
  have "fig1 = go_Figure\<lparr>traces := map (class_trace m pc classes) (np_unique classes)\<rparr>"
    by (simp add: go_Figure_def)
  with Inr assms(6) show ?thesis
    by (simp add: visualize_go_label_loop [OF assms(1,2,4)])
qed

section \<open>Decimal text is injective\<close>

lemma digit_inj:
  assumes "i < 10" "j < 10" "''0123456789'' ! i = ''0123456789'' ! j"
  shows "i = j"
proof -
  have "distinct ''0123456789''" by simp
  moreover have "i < length ''0123456789''" "j < length ''0123456789''" using assms by simp_all
  ultimately show ?thesis using assms(3) by (simp only: nth_eq_iff_index_eq)
qed

lemma str_nat_nonempty: "str_nat n \<noteq> []"
  by (subst str_nat.simps) simp

lemma str_nat_small: "n < 10 \<Longrightarrow> str_nat n = [''0123456789'' ! n]"
  by (subst str_nat.simps) simp

lemma str_nat_large:
  "\<not> n < 10 \<Longrightarrow> str_nat n = str_nat (n div 10) @ [''0123456789'' ! (n mod 10)]"
  by (subst str_nat.simps) simp

lemma str_nat_inj: "str_nat n = str_nat m \<Longrightarrow> n = m"
proof (induction n arbitrary: m rule: str_nat.induct)
  case (1 n)
  show ?case
  proof (cases "n < 10")
    case True
    note n = this
    show ?thesis
    proof (cases "m < 10")
      case True
      with n "1.prems" show ?thesis
        by (simp add: str_nat_small digit_inj)
    next
      case False
      with n "1.prems" str_nat_nonempty [of "m div 10"] show ?thesis
        by (simp add: str_nat_small str_nat_large)
    qed
  next
    case False
    note n = this
    show ?thesis
    proof (cases "m < 10")
      case True
      with n "1.prems" str_nat_nonempty [of "n div 10"] show ?thesis
        by (simp add: str_nat_small str_nat_large)
    next
      case False
      with n "1.prems" have eq: "str_nat (n div 10) = str_nat (m div 10)"
        and d: "''0123456789'' ! (n mod 10) = ''0123456789'' ! (m mod 10)"
        by (simp_all add: str_nat_large)
      from "1.IH" [OF n eq] have q: "n div 10 = m div 10" .
      have "n mod 10 < 10" "m mod 10 < 10" by simp_all
      from digit_inj [OF this d] have r: "n mod 10 = m mod 10" .
      from q r show ?thesis by (metis div_mult_mod_eq)
    qed
  qed
qed

lemma str_nat_no_minus: "CHR ''-'' \<notin> set (str_nat n)"
proof (induction n rule: str_nat.induct)
  case (1 n)
  have dig: "''0123456789'' ! k \<noteq> CHR ''-''" if "k < 10" for k
  proof -
    have "''0123456789'' ! k \<in> set ''0123456789''"
      using that by (intro nth_mem) simp
    then show ?thesis by auto
  qed
  show ?case
  proof (cases "n < 10")
    case True
    then show ?thesis using dig [of n] by (simp add: str_nat_small)
  next
    case False
    then show ?thesis using "1.IH" dig [of "n mod 10"] by (simp add: str_nat_large)
  qed
qed

lemma str_int_inj: "str_int i = str_int j \<Longrightarrow> i = j"
proof -
  assume eq: "str_int i = str_int j"
  have nominus: "str_nat n \<noteq> CHR ''-'' # w" for n w
    using str_nat_no_minus [of n] by (metis list.set_intros(1))
  show ?thesis
  proof (cases "i < 0")
    case True
    note i = this
    show ?thesis
    proof (cases "j < 0")
      case True
      with i eq have "str_nat (nat (- i)) = str_nat (nat (- j))" by (simp add: str_int_def)
      from str_nat_inj [OF this] i True show ?thesis by simp
    next
      case False
      with i eq have "str_nat (nat j) = CHR ''-'' # str_nat (nat (- i))"
        by (simp add: str_int_def)
      with nominus show ?thesis by blast
    qed
  next
    case False
    note i = this
    show ?thesis
    proof (cases "j < 0")
      case True
      with i eq have "str_nat (nat i) = CHR ''-'' # str_nat (nat (- j))"
        by (simp add: str_int_def)
      with nominus show ?thesis by blast
    next
      case False
      with i eq have "str_nat (nat i) = str_nat (nat j)" by (simp add: str_int_def)
      from str_nat_inj [OF this] i False show ?thesis by simp
    qed
  qed
qed

lemma trace_name_class_trace: "trace_name (class_trace m pc classes c) = ''Class '' @ str_int c"
  by (simp add: class_trace_def Let_def)

lemma distinct_class_trace_names:
  "distinct us \<Longrightarrow> distinct (map trace_name (map (class_trace m pc classes) us))"
  by (auto simp: distinct_map trace_name_class_trace comp_def inj_on_def dest: str_int_inj)

text \<open>
  C6: for a loaded labeled point cloud, \<open>get_color_map\<close> returns a dictionary whose keys
  are exactly the labels occurring in \<open>point_classes\<close>. In \<open>visualize\<close> (of
  PointCloudVisualizer\_go\_label.py) every colour lookup and every indexing then succeeds:
  the figure has one scatter trace per distinct label, in increasing order of the labels,
  the trace of a label holds exactly the points carrying that label, and the legend
  entries differ. When Plotly accepts these traces \<open>visualize\<close> hands that figure to
  \<^verbatim>\<open>pio.show\<close>, and whatever \<open>visualize\<close> raises is raised by Plotly, on one of these
  traces or on that figure.
\<close>

theorem color_map_and_class_traces:
  assumes "point_cloud s = Some pc" "point_classes s = Some classes"
    "length pc = length classes"
  shows "\<exists>m fig. get_color_map cm s = (Inr m, s) \<and> dom m = Some ` set classes \<and>
     traces fig = map (class_trace m pc classes) (np_unique classes) \<and>
     distinct (np_unique classes) \<and> set (np_unique classes) = set classes \<and>
     length (traces fig) = card (set classes) \<and>
     distinct (map trace_name (traces fig)) \<and>
     ((\<forall>t \<in> set (traces fig). go_trace lib t = Inr ())
        \<longrightarrow> visualize_go_label lib cm s = (pio_show lib fig, s)) \<and>
     (\<forall>e. fst (visualize_go_label lib cm s) = Inl e \<longrightarrow>
        (\<exists>t \<in> set (traces fig). go_trace lib t = Inl e) \<or> pio_show lib fig = Inl e)"
proof -
  from get_color_map_loaded [OF assms(2), of cm] obtain m where
    m: "get_color_map cm s = (Inr m, s)" "dom m = Some ` set classes"
    by blast
  let ?fig = "update_layout (go_Figure\<lparr>traces := map (class_trace m pc classes) (np_unique classes)\<rparr>)"
  have t: "traces ?fig = map (class_trace m pc classes) (np_unique classes)"
    by (simp add: update_layout_def)
  have v: "visualize_go_label lib cm s = (pio_show lib ?fig, s)"
    if "\<forall>t \<in> set (traces ?fig). go_trace lib t = Inr ()"
  proof -
    from that have "\<forall>c \<in> set (np_unique classes). go_trace lib (class_trace m pc classes c) = Inr ()"
      unfolding t by simp
    then show ?thesis by (rule visualize_go_label_value [OF assms m])
  qed
  have r: "(\<exists>t \<in> set (traces ?fig). go_trace lib t = Inl e) \<or> pio_show lib ?fig = Inl e"
    if "fst (visualize_go_label lib cm s) = Inl e" for e
    using visualize_go_label_raises [OF assms m that] unfolding t by auto
  have n: "length (traces ?fig) = card (set classes)"
    by (simp add: t length_np_unique)
  have d: "distinct (map trace_name (traces ?fig))"
    unfolding t by (rule distinct_class_trace_names [OF distinct_np_unique])
  from m v r t n d show ?thesis
    using distinct_np_unique [of classes] set_np_unique [of classes] by blast
qed

lemma sample_loaded_fields:
  "point_cloud sample_loaded = Some [(0, 0, 0), (1, 0, 1), (0, 2, 1), (4, 4, 2)]"
  "point_classes sample_loaded = Some [1, 2, 3, 1]"
  by (simp_all add: sample_loaded_def load_las_file_labeled_def sample_read_def sample_las_def
      init_labeled_def np_vstack3_def las_x_def las_y_def las_z_def las_classification_def
      upt_conv_Cons)

lemma empty_loaded_fields:
  "point_cloud empty_loaded = Some []" "point_classes empty_loaded = Some []"
  by (simp_all add: empty_loaded_def load_las_file_labeled_def empty_read_def
      init_labeled_def np_vstack3_def las_x_def las_y_def las_z_def las_classification_def)

lemma np_unique_sample: "np_unique [1, 2, 3, 1] = [1, 2, 3]"
  by (simp add: np_unique_def)

lemma str_int_sample: "str_int 1 = ''1''" "str_int 2 = ''2''" "str_int 3 = ''3''"
  by (simp_all add: str_int_def str_nat_small)

theorem color_map_and_class_traces_witness:
  "\<exists>fig. visualize_go_label sample_plotly sample_cmap sample_loaded =
           (pio_show sample_plotly fig, sample_loaded) \<and>
     length (traces fig) = 3 \<and>
     map trace_name (traces fig) = [''Class 1'', ''Class 2'', ''Class 3'']"
proof -
  have len: "length [(0::real, 0::real, 0::real), (1, 0, 1), (0, 2, 1), (4, 4, 2)] =
      length [1::int, 2, 3, 1]"
    by simp
  from color_map_and_class_traces [OF sample_loaded_fields len, of sample_cmap sample_plotly]
  obtain m fig where
    v: "(\<forall>t \<in> set (traces fig). go_trace sample_plotly t = Inr ())
        \<longrightarrow> visualize_go_label sample_plotly sample_cmap sample_loaded =
              (pio_show sample_plotly fig, sample_loaded)"
    and t: "traces fig =
       map (class_trace m [(0, 0, 0), (1, 0, 1), (0, 2, 1), (4, 4, 2)] [1, 2, 3, 1])
         (np_unique [1, 2, 3, 1])"
    by blast
  have "\<forall>t \<in> set (traces fig). go_trace sample_plotly t = Inr ()"
    by (simp add: sample_plotly_def)
  with v have v': "visualize_go_label sample_plotly sample_cmap sample_loaded =
      (pio_show sample_plotly fig, sample_loaded)"
    by blast
  from t have names: "map trace_name (traces fig) = [''Class 1'', ''Class 2'', ''Class 3'']"
    by (simp add: np_unique_sample trace_name_class_trace str_int_sample)
  from t have three: "length (traces fig) = 3"
    by (simp add: np_unique_sample)
  show ?thesis
    by (rule exI [of _ fig]) (simp only: v' names three)
qed

section \<open>more\_vis/two\_svm\_plane.py: what the classifier is fitted on\<close>

lemma mask_rows_as_indices:
  assumes "length arr = length classes"
  shows "mask_rows arr (map P classes) =
           Inr (map (\<lambda>i. arr ! i) (filter (\<lambda>i. P (classes ! i)) [0..<length classes]))"
proof -
  have "zip arr (map P classes) = map (\<lambda>i. (arr ! i, P (classes ! i))) [0..<length classes]"
    using assms by (intro nth_equalityI) simp_all
  then have "map fst (filter snd (zip arr (map P classes))) =
      map (\<lambda>i. arr ! i) (filter (\<lambda>i. P (classes ! i)) [0..<length classes])"
    by (simp add: filter_map comp_def)
  with assms show ?thesis by (simp add: mask_rows_def)
qed

lemma np_isin_pair: "np_isin classes [a, b] = map (\<lambda>c. c = a \<or> c = b) classes"
  by (simp add: np_isin_def)

lemma points_filtered:
  "length pc = length classes \<Longrightarrow>
   mask_rows pc (np_isin classes [a, b]) = Inr (training_points pc classes a b)"
  by (simp add: np_isin_pair mask_rows_as_indices training_points_def training_indices_def)

lemma classes_filtered:
  "mask_rows classes (np_isin classes [a, b]) =
     Inr (map (\<lambda>i. classes ! i) (training_indices classes a b))"
  by (simp add: np_isin_pair mask_rows_as_indices training_indices_def)

lemma labels_of_filtered:
  "np_where_01 (map (\<lambda>c. c = a) (map (\<lambda>i. classes ! i) (training_indices classes a b))) =
     training_labels classes a b"
  by (simp add: np_where_01_def training_labels_def comp_def)

lemma train_svm_loaded:
  assumes "point_cloud s = Some pc" "point_classes s = Some classes"
    "length pc = length classes"
  shows "train_svm fit s a b =
     (case fit (training_points pc classes a b) (training_labels classes a b) of
        Inl e \<Rightarrow> (Inl e, s)
      | Inr svm \<Rightarrow>
          (case coef svm of
             [] \<Rightarrow> (Inl (Exc IndexError ''index 0 is out of bounds for axis 0 with size 0''), s)
           | w # _ \<Rightarrow>
             (case w of
                [ca, cb, cc] \<Rightarrow>
                  (case intercept svm of
                     [] \<Rightarrow> (Inl (Exc IndexError ''index 0 is out of bounds for axis 0 with size 0''), s)
                   | d # _ \<Rightarrow> (Inr (ca, cb, cc, d), s))
              | _ \<Rightarrow> (Inl (Exc ValueError ''wrong number of values to unpack (expected 3)''), s))))"
  using assms
  by (simp add: train_svm_def Let_def points_filtered classes_filtered labels_of_filtered
      del: map_map)

text \<open>
  C1: for a loaded point cloud with labels and any \<open>class_a\<close>, \<open>class_b\<close>, \<open>train_svm\<close> calls
  the fit on exactly the points whose label is \<open>class_a\<close> or \<open>class_b\<close>, with training
  label 0 for a point if and only if its label is \<open>class_a\<close> and 1 otherwise; an
  exception of the fit propagates, and when the fit returns a model \<open>train_svm\<close> returns
  the three entries of its first coefficient vector together with its first intercept.
\<close>

theorem train_svm_fits_two_classes:
  assumes "point_cloud s = Some pc" "point_classes s = Some classes"
    "length pc = length classes"
  shows
    "(\<forall>e. fit (training_points pc classes class_a class_b) (training_labels classes class_a class_b) = Inl e
        \<longrightarrow> train_svm fit s class_a class_b = (Inl e, s)) \<and>
     (\<forall>svm a b c ws d ds.
        fit (training_points pc classes class_a class_b) (training_labels classes class_a class_b) = Inr svm
        \<and> coef svm = [a, b, c] # ws \<and> intercept svm = d # ds
        \<longrightarrow> train_svm fit s class_a class_b = (Inr (a, b, c, d), s)) \<and>
     length (training_points pc classes class_a class_b) = length (training_labels classes class_a class_b) \<and>
     set (training_indices classes class_a class_b) =
       {i. i < length classes \<and> (classes ! i = class_a \<or> classes ! i = class_b)} \<and>
     sorted (training_indices classes class_a class_b) \<and>
     distinct (training_indices classes class_a class_b) \<and>
     (\<forall>k < length (training_indices classes class_a class_b).
        training_points pc classes class_a class_b ! k = pc ! (training_indices classes class_a class_b ! k) \<and>
        (training_labels classes class_a class_b ! k = 0
           \<longleftrightarrow> classes ! (training_indices classes class_a class_b ! k) = class_a) \<and>
        (training_labels classes class_a class_b ! k = 1
           \<longleftrightarrow> classes ! (training_indices classes class_a class_b ! k) \<noteq> class_a))"
proof -
  have fitted: "train_svm fit s class_a class_b = (Inl e, s)"
    if "fit (training_points pc classes class_a class_b) (training_labels classes class_a class_b) = Inl e"
    for e
    using that by (simp add: train_svm_loaded [OF assms])
  have returned: "train_svm fit s class_a class_b = (Inr (a, b, c, d), s)"
    if "fit (training_points pc classes class_a class_b) (training_labels classes class_a class_b) = Inr svm"
      "coef svm = [a, b, c] # ws" "intercept svm = d # ds"
    for svm a b c ws d ds
    using that by (simp add: train_svm_loaded [OF assms])
  have len: "length (training_points pc classes class_a class_b) =
      length (training_labels classes class_a class_b)"
    by (simp add: training_points_def training_labels_def)
  have idx: "set (training_indices classes class_a class_b) =
       {i. i < length classes \<and> (classes ! i = class_a \<or> classes ! i = class_b)}"
    by (auto simp: training_indices_def)
  have ord: "sorted (training_indices classes class_a class_b)"
    "distinct (training_indices classes class_a class_b)"
    by (simp_all add: training_indices_def sorted_wrt_filter)
  have at: "training_points pc classes class_a class_b ! k = pc ! (training_indices classes class_a class_b ! k) \<and>
        (training_labels classes class_a class_b ! k = 0
           \<longleftrightarrow> classes ! (training_indices classes class_a class_b ! k) = class_a) \<and>
        (training_labels classes class_a class_b ! k = 1
           \<longleftrightarrow> classes ! (training_indices classes class_a class_b ! k) \<noteq> class_a)"
    if "k < length (training_indices classes class_a class_b)" for k
    using that by (simp add: training_points_def training_labels_def)
  from fitted returned len idx ord at show ?thesis by blast
qed

theorem train_svm_fits_two_classes_witness:
  "train_svm sample_fit sample_loaded 1 2 = (Inr (1, 1, 2, - 3), sample_loaded) \<and>
   training_indices [1, 2, 3, 1] 1 2 = [0, 1, 3] \<and>
   training_points [(0, 0, 0), (1, 0, 1), (0, 2, 1), (4, 4, 2)] [1, 2, 3, 1] 1 2 =
     [(0, 0, 0), (1, 0, 1), (4, 4, 2)] \<and>
   training_labels [1, 2, 3, 1] 1 2 = [0, 1, 0]"
proof -
  have len: "length [(0::real, 0::real, 0::real), (1, 0, 1), (0, 2, 1), (4, 4, 2)] =
      length [1::int, 2, 3, 1]"
    by simp
  have idx: "training_indices [1, 2, 3, 1] 1 2 = [0, 1, 3]"
    by (simp add: training_indices_def upt_conv_Cons)
  have fit: "sample_fit (training_points [(0, 0, 0), (1, 0, 1), (0, 2, 1), (4, 4, 2)] [1, 2, 3, 1] 1 2)
      (training_labels [1, 2, 3, 1] 1 2) = Inr \<lparr>coef = [[1, 1, 2]], intercept = [- 3]\<rparr>"
    by (simp add: sample_fit_def)
  from train_svm_fits_two_classes [OF sample_loaded_fields len, of sample_fit 1 2] fit
  have "train_svm sample_fit sample_loaded 1 2 = (Inr (1, 1, 2, - 3), sample_loaded)"
    by simp
  then show ?thesis
    by (simp add: idx training_points_def training_labels_def)
qed

section \<open>The not-loaded check of visualize\<close>

lemma not_loaded_ValueError: "raises_ValueError (Inl not_loaded)"
  by (simp add: raises_ValueError_def isinstance_ValueError_def not_loaded_def)

lemma visualize_o3d_cases:
  "unloaded t \<Longrightarrow> visualize_o3d draw t = (Inl not_loaded, t)"
  "point_cloud t = Some pc \<Longrightarrow> visualize_o3d draw t = (draw (Draw_geometries [pc]), t)"
  by (simp_all add: visualize_o3d_def unloaded_def)

lemma visualize_pv_cases:
  "unloaded t \<Longrightarrow> visualize_pv render t = (Inl not_loaded, t)"
  "point_cloud t = Some pc \<Longrightarrow>
     visualize_pv render t =
       (render \<lparr>pv_points = pc, pv_color = ''white'', pv_point_size = 2,
                pv_render_points_as_spheres = True, pv_background = ''black''\<rparr>, t)"
  by (simp_all add: visualize_pv_def unloaded_def)

lemma take_rows_not_the_guard: "take_rows arr idx \<noteq> Inl not_loaded"
  by (simp add: take_rows_def not_loaded_def)

lemma class_traces_not_the_guard:
  assumes "\<forall>t. go_trace lib t \<noteq> Inl not_loaded"
  shows "class_traces lib m pc classes us fig \<noteq> Inl not_loaded"
proof (induction us arbitrary: fig)
  case Nil
  then show ?case by simp
next
  case (Cons c us)
  show ?case
  proof (cases "take_rows pc (np_where_eq classes c)")
    case (Inl e')
    with take_rows_not_the_guard [of pc "np_where_eq classes c"] show ?thesis by simp
  next
    case (Inr ps)
    show ?thesis
    proof (cases "m (Some c)")
      case None
      with Inr show ?thesis by (simp add: not_loaded_def)
    next
      case (Some col)
      with Inr Cons.IH assms show ?thesis
        by (auto simp: Let_def color_hex_of_returns split: sum.splits)
    qed
  qed
qed

lemma visualize_go_label_unloaded:
  "unloaded_labeled s \<Longrightarrow> visualize_go_label lib cm s = (Inl not_loaded, s)"
  by (auto simp: visualize_go_label_def unloaded_labeled_def split: option.splits)

lemma visualize_two_svm_unloaded:
  "unloaded_labeled s \<Longrightarrow> visualize_two_svm lib cm fit s = (Inl not_loaded, s)"
  by (auto simp: visualize_two_svm_def unloaded_labeled_def split: option.splits)

lemma get_color_map_returns: "\<exists>m. get_color_map cm s = (Inr m, s)"
  by (simp add: get_color_map_def Let_def)

lemma visualize_go_label_not_the_guard:
  assumes "\<not> unloaded_labeled s" "\<forall>t. go_trace lib t \<noteq> Inl not_loaded"
    "\<forall>fig. pio_show lib fig \<noteq> Inl not_loaded"
  shows "fst (visualize_go_label lib cm s) \<noteq> Inl not_loaded"
proof -
  from assms(1) obtain pc classes where
    l: "point_cloud s = Some pc" "point_classes s = Some classes"
    by (auto simp: unloaded_labeled_def)
  obtain m where m: "get_color_map cm s = (Inr m, s)"
    using get_color_map_returns by blast
  from class_traces_not_the_guard [OF assms(2), of m pc classes "np_unique classes" go_Figure]
    assms(3)
  show ?thesis
    by (auto simp: visualize_go_label_loop [OF l m] split: sum.splits)
qed

section \<open>more\_vis/two\_svm\_plane.py: visualize on a loaded cloud\<close>

lemma add_plane_cases:
  "add_plane lib fit s fig class_a class_b x_range y_range cs nm =
     (case fst (train_svm fit s class_a class_b) of
        Inl e \<Rightarrow> (Inl e, s)
      | Inr coeffs \<Rightarrow>
          (case go_trace lib (plane_surface coeffs x_range y_range cs nm) of
             Inl e \<Rightarrow> (Inl e, s)
           | Inr u \<Rightarrow> (Inr (add_trace fig (plane_surface coeffs x_range y_range cs nm)), s)))"
proof -
  have t: "train_svm fit s class_a class_b = (fst (train_svm fit s class_a class_b), s)"
    by (metis train_svm_state prod.collapse)
  show ?thesis
  proof (cases "fst (train_svm fit s class_a class_b)")
    case (Inl e)
    with t have "train_svm fit s class_a class_b = (Inl e, s)" by simp
    with Inl show ?thesis by (simp add: add_plane_def)
  next
    case (Inr coeffs)
    obtain a b c d where c: "coeffs = (a, b, c, d)" by (cases coeffs) auto
    from t Inr c have "train_svm fit s class_a class_b = (Inr (a, b, c, d), s)" by simp
    with Inr c show ?thesis
      by (simp add: add_plane_def plot_plane_value Let_def plane_surface_def split: sum.splits)
  qed
qed

lemma np_range_of_cloud:
  assumes "pc \<noteq> []"
  shows "np_min (col0 pc) = Inr (fst (cloud_x_range pc))"
    "np_max (col0 pc) = Inr (snd (cloud_x_range pc))"
    "np_min (col1 pc) = Inr (fst (cloud_y_range pc))"
    "np_max (col1 pc) = Inr (snd (cloud_y_range pc))"
  using assms
  by (simp_all add: cloud_x_range_def cloud_y_range_def np_min_nonempty np_max_nonempty
      col0_def col1_def)

lemma visualize_two_svm_empty:
  assumes "point_cloud s = Some []" "point_classes s = Some classes"
    "class_traces lib m [] classes (np_unique classes) go_Figure = Inr fig1"
    "get_color_map cm s = (Inr m, s)"
  shows "visualize_two_svm lib cm fit s =
     (Inl (Exc ValueError ''zero-size array to reduction operation minimum which has no identity''), s)"
  using assms by (simp add: visualize_two_svm_def Let_def np_min_def col0_def)

lemma add_plane_not_fitted:
  "fst (train_svm fit s class_a class_b) = Inl e \<Longrightarrow>
   add_plane lib fit s fig class_a class_b x_range y_range cs nm = (Inl e, s)"
  by (simp add: add_plane_cases)

lemma add_plane_refused:
  "fst (train_svm fit s class_a class_b) = Inr coeffs \<Longrightarrow>
   go_trace lib (plane_surface coeffs x_range y_range cs nm) = Inl e \<Longrightarrow>
   add_plane lib fit s fig class_a class_b x_range y_range cs nm = (Inl e, s)"
  by (simp add: add_plane_cases)

lemma add_plane_added:
  "fst (train_svm fit s class_a class_b) = Inr coeffs \<Longrightarrow>
   go_trace lib (plane_surface coeffs x_range y_range cs nm) = Inr u \<Longrightarrow>
   add_plane lib fit s fig class_a class_b x_range y_range cs nm =
     (Inr (add_trace fig (plane_surface coeffs x_range y_range cs nm)), s)"
  by (simp add: add_plane_cases)

lemma visualize_two_svm_planes:
  assumes "point_cloud s = Some pc" "point_classes s = Some classes" "pc \<noteq> []"
    "get_color_map cm s = (Inr m, s)"
    "class_traces lib m pc classes (np_unique classes) go_Figure = Inr fig1"
  shows "visualize_two_svm lib cm fit s = (two_planes lib fit s pc fig1, s)"
proof -
  let ?t1 = "\<lambda>p1. plane_surface p1 (cloud_x_range pc) (cloud_y_range pc) ''Viridis''
      ''Plane 1: Class 1 vs Class 2''"
  let ?t2 = "\<lambda>p2. plane_surface p2 (cloud_x_range pc) (cloud_y_range pc) ''Cividis''
      ''Plane 2: Class 1 vs Class 3''"
  have base: "visualize_two_svm lib cm fit s =
      (case add_plane lib fit s fig1 1 2 (cloud_x_range pc) (cloud_y_range pc) ''Viridis''
              ''Plane 1: Class 1 vs Class 2'' of
         (Inl e, s2) \<Rightarrow> (Inl e, s2)
       | (Inr fig2, s2) \<Rightarrow>
           (case add_plane lib fit s2 fig2 1 3 (cloud_x_range pc) (cloud_y_range pc) ''Cividis''
                   ''Plane 2: Class 1 vs Class 3'' of
              (Inl e, s3) \<Rightarrow> (Inl e, s3)
            | (Inr fig3, s3) \<Rightarrow> (pio_show lib (update_layout fig3), s3)))"
    using assms by (simp add: visualize_two_svm_def Let_def np_range_of_cloud)
  show ?thesis
  proof (cases "fst (train_svm fit s 1 2)")
    case (Inl e)
    then show ?thesis
      by (simp add: base add_plane_not_fitted [OF Inl] two_planes_def)
  next
    case p1: (Inr p1)
    show ?thesis
    proof (cases "go_trace lib (?t1 p1)")
      case (Inl e)
      then show ?thesis
        by (simp add: base add_plane_refused [OF p1 Inl] two_planes_def p1)
    next
      case u1: (Inr u1)
      show ?thesis
      proof (cases "fst (train_svm fit s 1 3)")
        case (Inl e)
        then show ?thesis
          by (simp add: base add_plane_added [OF p1 u1] add_plane_not_fitted [OF Inl]
              two_planes_def p1 u1)
      next
        case p2: (Inr p2)
        show ?thesis
        proof (cases "go_trace lib (?t2 p2)")
          case (Inl e)
          then show ?thesis
            by (simp add: base add_plane_added [OF p1 u1] add_plane_refused [OF p2 Inl]
                two_planes_def p1 u1 p2)
        next
          case u2: (Inr u2)
          then show ?thesis
            by (simp add: base add_plane_added [OF p1 u1] add_plane_added [OF p2 u2]
                two_planes_def p1 u1 p2)
        qed
      qed
    qed
  qed
qed

lemma mask_rows_not_the_guard: "mask_rows arr msk \<noteq> Inl not_loaded"
  by (simp add: mask_rows_def not_loaded_def)

lemma other_errors_not_the_guard:
  "not_subscriptable \<noteq> not_loaded"
  "Exc IndexError msg \<noteq> not_loaded"
  "Exc ValueError ''wrong number of values to unpack (expected 3)'' \<noteq> not_loaded"
  by (simp_all add: not_subscriptable_def not_loaded_def)

lemma train_svm_not_the_guard:
  assumes "\<forall>points labels. fit points labels \<noteq> Inl not_loaded"
  shows "fst (train_svm fit s class_a class_b) \<noteq> Inl not_loaded"
  using assms
  by (auto simp: train_svm_def Let_def mask_rows_not_the_guard other_errors_not_the_guard
      split: option.splits sum.splits list.splits)

lemma two_planes_not_the_guard:
  assumes "\<forall>points labels. fit points labels \<noteq> Inl not_loaded"
    "\<forall>t. go_trace lib t \<noteq> Inl not_loaded" "\<forall>fig. pio_show lib fig \<noteq> Inl not_loaded"
  shows "two_planes lib fit s pc fig1 \<noteq> Inl not_loaded"
  using train_svm_not_the_guard [OF assms(1), of s 1 2]
    train_svm_not_the_guard [OF assms(1), of s 1 3] assms(2,3)
  by (auto simp: two_planes_def Let_def split: sum.splits)

lemma visualize_two_svm_not_the_guard:
  assumes "\<not> unloaded_labeled s" "\<forall>points labels. fit points labels \<noteq> Inl not_loaded"
    "\<forall>t. go_trace lib t \<noteq> Inl not_loaded" "\<forall>fig. pio_show lib fig \<noteq> Inl not_loaded"
  shows "fst (visualize_two_svm lib cm fit s) \<noteq> Inl not_loaded"
proof -
  from assms(1) obtain pc classes where
    l: "point_cloud s = Some pc" "point_classes s = Some classes"
    by (auto simp: unloaded_labeled_def)
  obtain m where m: "get_color_map cm s = (Inr m, s)"
    using get_color_map_returns by blast
  show ?thesis
  proof (cases "class_traces lib m pc classes (np_unique classes) go_Figure")
    case (Inl e)
    with class_traces_not_the_guard [OF assms(3), of m pc classes "np_unique classes" go_Figure]
    have "e \<noteq> not_loaded" by auto
    with Inl l m show ?thesis
      by (simp add: visualize_two_svm_def Let_def)
  next
    case (Inr fig1)
    show ?thesis
    proof (cases "pc = []")
      case True
      with l Inr m show ?thesis
        by (simp add: visualize_two_svm_empty [of s classes lib m fig1 cm] not_loaded_def)
    next
      case False
      from two_planes_not_the_guard [OF assms(2-4)] show ?thesis
        by (simp add: visualize_two_svm_planes [OF l False m Inr])
    qed
  qed
qed




text \<open>
  C8, as the code has it: in every variant, \<open>visualize\<close> on an object whose point cloud
  (or, in the labeled variants, whose label array) is still \<open>None\<close> raises its
  "No point cloud loaded" \<open>ValueError\<close> whatever the renderer would do, and it leaves the
  object unchanged. When the data is loaded the check is passed and \<open>visualize\<close> goes on
  to the library calls: in the Open3D and PyVista variants its outcome is the outcome of
  the renderer on the stored points, and in every variant it then raises the script's own
  error only if a library raises that very exception. What the libraries raise can itself
  be a \<open>ValueError\<close>, so a \<open>ValueError\<close> from \<open>visualize\<close> does not tell that nothing was
  loaded.
\<close>

theorem visualize_raises_when_not_loaded:
  "(unloaded t \<longrightarrow>
      visualize_o3d draw t = (Inl not_loaded, t) \<and> visualize_pv render t = (Inl not_loaded, t)) \<and>
   (unloaded_labeled s \<longrightarrow>
      visualize_go_label lib cm s = (Inl not_loaded, s) \<and>
      visualize_two_svm lib cm fit s = (Inl not_loaded, s)) \<and>
   raises_ValueError (Inl not_loaded :: unit result) \<and>
   (\<forall>pc. point_cloud t = Some pc \<longrightarrow>
      visualize_o3d draw t = (draw (Draw_geometries [pc]), t) \<and>
      visualize_pv render t =
        (render \<lparr>pv_points = pc, pv_color = ''white'', pv_point_size = 2,
                 pv_render_points_as_spheres = True, pv_background = ''black''\<rparr>, t)) \<and>
   ((\<forall>scene. draw scene \<noteq> Inl not_loaded) \<longrightarrow>
      (fst (visualize_o3d draw t) = Inl not_loaded \<longleftrightarrow> unloaded t)) \<and>
   ((\<forall>scene. render scene \<noteq> Inl not_loaded) \<longrightarrow>
      (fst (visualize_pv render t) = Inl not_loaded \<longleftrightarrow> unloaded t)) \<and>
   ((\<forall>tr. go_trace lib tr \<noteq> Inl not_loaded) \<and> (\<forall>fig. pio_show lib fig \<noteq> Inl not_loaded) \<longrightarrow>
      (fst (visualize_go_label lib cm s) = Inl not_loaded \<longleftrightarrow> unloaded_labeled s)) \<and>
   ((\<forall>tr. go_trace lib tr \<noteq> Inl not_loaded) \<and> (\<forall>fig. pio_show lib fig \<noteq> Inl not_loaded) \<and>
    (\<forall>points labels. fit points labels \<noteq> Inl not_loaded) \<longrightarrow>
      (fst (visualize_two_svm lib cm fit s) = Inl not_loaded \<longleftrightarrow> unloaded_labeled s)) \<and>
   snd (visualize_o3d draw t) = t \<and> snd (visualize_pv render t) = t \<and>
   snd (visualize_go_label lib cm s) = s \<and> snd (visualize_two_svm lib cm fit s) = s"
proof -
  have guard: "unloaded t \<longrightarrow>
      visualize_o3d draw t = (Inl not_loaded, t) \<and> visualize_pv render t = (Inl not_loaded, t)"
    by (simp add: visualize_o3d_cases(1) visualize_pv_cases(1))
  have guard_labeled: "unloaded_labeled s \<longrightarrow>
      visualize_go_label lib cm s = (Inl not_loaded, s) \<and>
      visualize_two_svm lib cm fit s = (Inl not_loaded, s)"
    by (simp add: visualize_go_label_unloaded visualize_two_svm_unloaded)
  have loaded: "\<forall>pc. point_cloud t = Some pc \<longrightarrow>
      visualize_o3d draw t = (draw (Draw_geometries [pc]), t) \<and>
      visualize_pv render t =
        (render \<lparr>pv_points = pc, pv_color = ''white'', pv_point_size = 2,
                 pv_render_points_as_spheres = True, pv_background = ''black''\<rparr>, t)"
    by (simp add: visualize_o3d_cases(2) visualize_pv_cases(2))
  have o3d: "fst (visualize_o3d draw t) = Inl not_loaded \<longleftrightarrow> unloaded t"
    if "\<forall>scene. draw scene \<noteq> Inl not_loaded"
    using that by (cases "point_cloud t") (simp_all add: visualize_o3d_def unloaded_def)
  have pv: "fst (visualize_pv render t) = Inl not_loaded \<longleftrightarrow> unloaded t"
    if "\<forall>scene. render scene \<noteq> Inl not_loaded"
    using that by (cases "point_cloud t") (simp_all add: visualize_pv_def unloaded_def)
  have go: "fst (visualize_go_label lib cm s) = Inl not_loaded \<longleftrightarrow> unloaded_labeled s"
    if "\<forall>tr. go_trace lib tr \<noteq> Inl not_loaded" "\<forall>fig. pio_show lib fig \<noteq> Inl not_loaded"
  proof (cases "unloaded_labeled s")
    case True
    with visualize_go_label_unloaded [OF True, of lib cm] show ?thesis by simp
  next
    case False
    with visualize_go_label_not_the_guard [OF False that, of cm] show ?thesis by simp
  qed
  have svm: "fst (visualize_two_svm lib cm fit s) = Inl not_loaded \<longleftrightarrow> unloaded_labeled s"
    if "\<forall>tr. go_trace lib tr \<noteq> Inl not_loaded" "\<forall>fig. pio_show lib fig \<noteq> Inl not_loaded"
      "\<forall>points labels. fit points labels \<noteq> Inl not_loaded"
  proof (cases "unloaded_labeled s")
    case True
    with visualize_two_svm_unloaded [OF True, of lib cm fit] show ?thesis by simp
  next
    case False
    with visualize_two_svm_not_the_guard [OF False that(3) that(1,2), of cm] show ?thesis by simp
  qed
  from guard guard_labeled loaded o3d pv go svm show ?thesis
    by (simp add: visualize_o3d_state visualize_pv_state visualize_go_label_state
        visualize_two_svm_state not_loaded_ValueError)
qed

theorem visualize_raises_when_not_loaded_witness:
  "visualize_o3d sample_draw (init ''scan.las'') = (Inl not_loaded, init ''scan.las'') \<and>
   visualize_pv empty_mesh_refused (init ''scan.las'') = (Inl not_loaded, init ''scan.las'') \<and>
   visualize_go_label sample_plotly sample_cmap (init_labeled ''scan.las'') =
     (Inl not_loaded, init_labeled ''scan.las'') \<and>
   visualize_two_svm sample_plotly sample_cmap sample_fit (init_labeled ''scan.las'') =
     (Inl not_loaded, init_labeled ''scan.las'') \<and>
   fst (visualize_pv empty_mesh_refused empty_cloud) = Inl (Exc ValueError ''Empty meshes cannot be plotted.'') \<and>
   fst (visualize_go_label sample_plotly sample_cmap sample_loaded) \<noteq> Inl not_loaded \<and>
   fst (visualize_two_svm sample_plotly sample_cmap sample_fit sample_loaded) \<noteq> Inl not_loaded"
proof -
  have f: "\<forall>points labels. sample_fit points labels \<noteq> Inl not_loaded"
    by (simp add: sample_fit_def)
  have p: "\<forall>tr. go_trace sample_plotly tr \<noteq> Inl not_loaded"
    "\<forall>fig. pio_show sample_plotly fig \<noteq> Inl not_loaded"
    by (simp_all add: sample_plotly_def)
  have u: "unloaded (init ''scan.las'')" "unloaded_labeled (init_labeled ''scan.las'')"
    by (simp_all add: unloaded_def unloaded_labeled_def init_def init_labeled_def)
  have l: "\<not> unloaded_labeled sample_loaded"
    by (simp add: unloaded_labeled_def sample_loaded_fields)
  have e: "point_cloud empty_cloud = Some []"
    by (simp add: empty_cloud_def load_las_file_def empty_read_def init_def np_vstack3_def
        las_x_def las_y_def las_z_def)
  from visualize_raises_when_not_loaded
      [where t = "init ''scan.las''" and s = "init_labeled ''scan.las''" and draw = sample_draw
         and render = empty_mesh_refused and lib = sample_plotly and cm = sample_cmap
         and fit = sample_fit]
    visualize_raises_when_not_loaded
      [where t = empty_cloud and s = sample_loaded and draw = sample_draw
         and render = empty_mesh_refused and lib = sample_plotly and cm = sample_cmap
         and fit = sample_fit]
    f p u l e
  show ?thesis by (simp add: empty_mesh_refused_def)
qed

text \<open>
  The claim as stated fails for the two-plane variant: a file with no point records
  loads, and \<open>visualize\<close> then raises \<open>ValueError\<close> from \<open>np.min\<close> of an empty array
  although the point cloud is loaded.
\<close>

theorem visualize_two_svm_empty_cloud_counterexample:
  "\<not> unloaded_labeled empty_loaded \<and>
   raises_ValueError (fst (visualize_two_svm sample_plotly sample_cmap sample_fit empty_loaded))"
proof -
  obtain m where m: "get_color_map sample_cmap empty_loaded = (Inr m, empty_loaded)"
    using get_color_map_returns by blast
  have ct: "class_traces sample_plotly m [] [] (np_unique []) go_Figure = Inr go_Figure"
    by (simp add: np_unique_def)
  have "raises_ValueError (fst (visualize_two_svm sample_plotly sample_cmap sample_fit empty_loaded))"
    by (simp add: visualize_two_svm_empty [OF empty_loaded_fields ct m] raises_ValueError_def
        isinstance_ValueError_def)
  then show ?thesis
    by (simp add: unloaded_labeled_def empty_loaded_fields)
qed





end
